theory Spec2Isabelle
  imports Complex_Main
begin

section \<open>The notebook pet_center_count: grids of eddy centres\<close>

text \<open>
  The notebook loads two observation sets, bins the eddy centres of each into a masked
  2-D grid, combines the two grids (ratio and masked sum) and draws four panels.
  Values are exact rationals: the rounding of the floating-point division is not
  modelled. Every raise of the notebook is a value of type \<open>error\<close>.
\<close>

datatype error =
    FileNotFound string
  | KeyError string
  | ZeroDivisionError
  | ValueError
  | IndexError

definition bindE :: "error + 'a \<Rightarrow> ('a \<Rightarrow> error + 'b) \<Rightarrow> error + 'b" where
  "bindE r f = (case r of Inl e \<Rightarrow> Inl e | Inr x \<Rightarrow> f x)"

subsection \<open>Arrays in a store\<close>

text \<open>
  The arrays of the notebook are mutable and shared: \<open>m_c\<close> is a view of the mask
  of \<open>g_c.vars["count"]\<close>, and \<open>g_c.vars["count"]\<close> is rebound to \<open>ratio\<close>
  at the end. So the buffers live in a store, and an array value is a shape with the
  addresses of its buffers. A masked array has a data buffer and a mask buffer
  (the mask is always a full boolean array here, as the grids have it);
  both are flat, row after row.
\<close>

record heap =
  data_of :: "nat \<Rightarrow> rat list"
  mask_of :: "nat \<Rightarrow> bool list"
  next_ref :: nat

record marray =
  shape :: "nat \<times> nat"
  dref :: nat
  mref :: nat

record barray =
  bshape :: "nat \<times> nat"
  bref :: nat

definition alloc_data :: "heap \<Rightarrow> rat list \<Rightarrow> heap \<times> nat" where
  "alloc_data h xs =
     (h\<lparr>data_of := (data_of h)(next_ref h := xs), next_ref := Suc (next_ref h)\<rparr>, next_ref h)"

definition alloc_mask :: "heap \<Rightarrow> bool list \<Rightarrow> heap \<times> nat" where
  "alloc_mask h bs =
     (h\<lparr>mask_of := (mask_of h)(next_ref h := bs), next_ref := Suc (next_ref h)\<rparr>, next_ref h)"

text \<open>\<open>x.mask\<close>: a view of the mask buffer of \<open>x\<close>, not a copy.\<close>

definition get_mask :: "marray \<Rightarrow> barray" where
  "get_mask x = \<lparr>bshape = shape x, bref = mref x\<rparr>"

text \<open>\<open>p & q\<close> on two boolean arrays: a new array. Shapes that differ raise
  (broadcasting between unequal shapes is not modelled).\<close>

definition logical_and :: "heap \<Rightarrow> barray \<Rightarrow> barray \<Rightarrow> error + (heap \<times> barray)" where
  "logical_and h p q =
     (if bshape p \<noteq> bshape q then Inl ValueError
      else (let (h', r) = alloc_mask h (map2 (\<and>) (mask_of h (bref p)) (mask_of h (bref q)))
            in Inr (h', \<lparr>bshape = bshape p, bref = r\<rparr>)))"

definition put_where :: "bool list \<Rightarrow> 'a \<Rightarrow> 'a list \<Rightarrow> 'a list" where
  "put_where idx v xs = map2 (\<lambda>b x. if b then v else x) idx xs"

text \<open>\<open>x[idx] = v\<close> with a boolean index and an unmasked scalar: the data is written
  first, then the mask is cleared at the indexed cells; the index is read again for
  the second write, and it may be a view of the mask being written.\<close>

definition setitem_bool :: "heap \<Rightarrow> marray \<Rightarrow> barray \<Rightarrow> rat \<Rightarrow> error + heap" where
  "setitem_bool h x idx v =
     (if bshape idx \<noteq> shape x then Inl IndexError
      else (let h1 = h\<lparr>data_of := (data_of h)
                         (dref x := put_where (mask_of h (bref idx)) v (data_of h (dref x)))\<rparr>;
                h2 = h1\<lparr>mask_of := (mask_of h1)
                         (mref x := put_where (mask_of h1 (bref idx)) False (mask_of h1 (mref x)))\<rparr>
            in Inr h2))"

text \<open>\<open>x += y\<close> on masked arrays, in place: the mask of \<open>y\<close> is or-ed into the mask
  of \<open>x\<close>, then the data of \<open>y\<close> is added where the new mask is clear, and zero where
  it is set.\<close>

definition iadd :: "heap \<Rightarrow> marray \<Rightarrow> marray \<Rightarrow> error + heap" where
  "iadd h x y =
     (if shape x \<noteq> shape y then Inl ValueError
      else (let h1 = h\<lparr>mask_of := (mask_of h)
                         (mref x := map2 (\<or>) (mask_of h (mref x)) (mask_of h (mref y)))\<rparr>;
                other = map2 (\<lambda>b v. if b then 0 else v) (mask_of h1 (mref x)) (data_of h1 (dref y));
                h2 = h1\<lparr>data_of := (data_of h1)
                         (dref x := map2 (+) (data_of h1 (dref x)) other)\<rparr>
            in Inr h2))"

text \<open>\<open>x.mask = m\<close>: the mask buffer of \<open>x\<close> receives the content of \<open>m\<close>.\<close>

definition set_mask :: "heap \<Rightarrow> marray \<Rightarrow> barray \<Rightarrow> error + heap" where
  "set_mask h x m =
     (if bshape m \<noteq> shape x then Inl ValueError
      else Inr (h\<lparr>mask_of := (mask_of h)(mref x := mask_of h (bref m))\<rparr>))"

text \<open>\<open>x / y\<close> on masked arrays: a new masked array. No cell raises: the result is
  masked where either operand is masked or the divisor is zero, and a masked cell keeps
  the data of \<open>x\<close>. (The library also masks a quotient that leaves the float range;
  exact arithmetic has no such quotient.)\<close>

definition truediv :: "heap \<Rightarrow> marray \<Rightarrow> marray \<Rightarrow> error + (heap \<times> marray)" where
  "truediv h x y =
     (if shape x \<noteq> shape y then Inl ValueError
      else (let da = data_of h (dref x); db = data_of h (dref y);
                m = map2 (\<or>) (map2 (\<or>) (mask_of h (mref x)) (mask_of h (mref y)))
                      (map (\<lambda>b. b = 0) db);
                r = map2 (\<lambda>k (a, b). if k then a else a / b) m (zip da db);
                (h1, d) = alloc_data h r;
                (h2, k) = alloc_mask h1 m
            in Inr (h2, \<lparr>shape = shape x, dref = d, mref = k\<rparr>)))"

text \<open>An array is well formed in a store when its buffers are allocated and hold one
  value for each cell of its shape.\<close>

definition ncells :: "nat \<times> nat \<Rightarrow> nat" where
  "ncells s = fst s * snd s"

definition wf_marray :: "heap \<Rightarrow> marray \<Rightarrow> bool" where
  "wf_marray h x \<longleftrightarrow>
     dref x < next_ref h \<and> mref x < next_ref h \<and>
     length (data_of h (dref x)) = ncells (shape x) \<and>
     length (mask_of h (mref x)) = ncells (shape x)"

subsection \<open>Grid datasets\<close>

text \<open>The object that \<open>grid_count\<close> returns: the bin edges of the two axes and the
  dictionary \<open>vars\<close> of named arrays.\<close>

record grid =
  x_edges :: "rat list"
  y_edges :: "rat list"
  vars :: "string \<Rightarrow> marray option"

definition getvar :: "grid \<Rightarrow> string \<Rightarrow> error + marray" where
  "getvar g name = (case vars g name of None \<Rightarrow> Inl (KeyError name) | Some x \<Rightarrow> Inr x)"

subsection \<open>Cell 6: the ratio and the mask manipulation\<close>

text \<open>\<open>ratio = g_c.vars["count"] / g_a.vars["count"]\<close>\<close>

definition compute_ratio :: "heap \<Rightarrow> grid \<Rightarrow> grid \<Rightarrow> error + (heap \<times> marray)" where
  "compute_ratio h g_a g_c =
     bindE (getvar g_c ''count'') (\<lambda>x_c.
     bindE (getvar g_a ''count'') (\<lambda>x_a.
       truediv h x_c x_a))"

text \<open>
  \<^verbatim>\<open>
  m_c = g_c.vars["count"].mask
  m = m_c & g_a.vars["count"].mask
  g_c.vars["count"][m_c] = 0
  g_c.vars["count"] += g_a.vars["count"]
  g_c.vars["count"].mask = m
  \<close>
  The augmented assignment stores the array that \<open>+=\<close> returns, which is the array
  it was called on, back under the key \<open>count\<close>. The result is the store, \<open>g_c\<close>,
  \<open>m_c\<close> and \<open>m\<close>.
\<close>

definition mask_manipulation ::
  "heap \<Rightarrow> grid \<Rightarrow> grid \<Rightarrow> error + (heap \<times> grid \<times> barray \<times> barray)" where
  "mask_manipulation h g_a g_c =
     bindE (getvar g_c ''count'') (\<lambda>x0.
     (let m_c = get_mask x0 in
     bindE (getvar g_a ''count'') (\<lambda>x1.
     bindE (logical_and h m_c (get_mask x1)) (\<lambda>(h1, m).
     bindE (getvar g_c ''count'') (\<lambda>x2.
     bindE (setitem_bool h1 x2 m_c 0) (\<lambda>h2.
     bindE (getvar g_c ''count'') (\<lambda>x3.
     bindE (getvar g_a ''count'') (\<lambda>x4.
     bindE (iadd h2 x3 x4) (\<lambda>h3.
     (let g_c' = g_c\<lparr>vars := (vars g_c)(''count'' := Some x3)\<rparr> in
     bindE (getvar g_c' ''count'') (\<lambda>x5.
     bindE (set_mask h3 x5 m) (\<lambda>h4.
       Inr (h4, g_c', m_c, m)))))))))))))"

subsection \<open>Observation sets and the loader\<close>

text \<open>An observation set, as far as the notebook reads it: the centre (longitude,
  latitude) of every observation, and the attribute \<open>period\<close>, taken as given.\<close>

record observations =
  centers :: "(rat \<times> rat) list"
  period :: "rat \<times> rat"

text \<open>The world outside the notebook: the sample-data path resolver and the files.\<close>

record env =
  get_path :: "string \<Rightarrow> string"
  files :: "string \<Rightarrow> observations option"

text \<open>Modelled from the spec: the class method \<open>load_file\<close> is not among the sources.
  It gives the observation set of the file, and a missing file aborts the run.\<close>

definition load_file :: "env \<Rightarrow> string \<Rightarrow> error + observations" where
  "load_file e path = (case files e path of None \<Rightarrow> Inl (FileNotFound path) | Some obs \<Rightarrow> Inr obs)"

text \<open>Every access of the notebook to an observation set is written to a trace.\<close>

datatype dataset = Anticyclonic | Cyclonic

datatype access = LoadFile dataset | ReadPeriod dataset | ReadGridCount dataset

subsection \<open>Cell 4: parameters\<close>

definition step :: rat where
  "step = 125 / 1000"

type_synonym axis_bins = "rat \<times> rat \<times> rat"

definition bins :: "axis_bins \<times> axis_bins" where
  "bins = ((- 10, 37, step), (30, 46, step))"

datatype color_norm = Linear | LogNorm

text \<open>The keyword arguments given to \<open>display\<close>; \<open>factor\<close> and \<open>norm\<close> are
  \<open>None\<close> when the call does not pass them.\<close>

record kwargs =
  kw_cmap :: string
  kw_vmin :: rat
  kw_vmax :: rat
  kw_factor :: "rat option"
  kw_name :: string
  kw_norm :: "color_norm option"

text \<open>Python's \<open>/\<close> raises on a zero divisor. (Were the period a pair of array
  scalars, the quotient would be infinite instead; the properties below are about a
  period whose two ends differ.)\<close>

definition py_div :: "rat \<Rightarrow> rat \<Rightarrow> error + rat" where
  "py_div x y = (if y = 0 then Inl ZeroDivisionError else Inr (x / y))"

text \<open>
  Modelled from the spec: the property \<open>period\<close> of the observation class is not among
  the sources. It is read on an observation object, which a method could write to; the
  spec has the observation sets immutable once loaded, so the call gives the period
  and the object as it was.
\<close>

definition read_period :: "observations \<Rightarrow> (rat \<times> rat) \<times> observations" where
  "read_period obs = (period obs, obs)"

text \<open>The global variables after cell 4 (\<open>a\<close>, \<open>c\<close>, \<open>t0\<close>, \<open>t1\<close>, \<open>step\<close>,
  \<open>bins\<close> under the prefix \<open>nb_\<close>), and the trace of accesses so far.\<close>

record namespace =
  nb_a :: observations
  nb_c :: observations
  nb_t0 :: rat
  nb_t1 :: rat
  nb_step :: rat
  nb_bins :: "axis_bins \<times> axis_bins"
  kwargs_pcolormesh :: kwargs
  nb_trace :: "access list"

definition cell4 :: "env \<Rightarrow> error + namespace" where
  "cell4 e =
     bindE (load_file e (get_path e ''eddies_med_adt_allsat_dt2018/Anticyclonic.zarr'')) (\<lambda>a.
     bindE (load_file e (get_path e ''eddies_med_adt_allsat_dt2018/Cyclonic.zarr'')) (\<lambda>c.
     (let ((t0, t1), a1) = read_period a in
     bindE (py_div 1 (step ^ 2 * (t1 - t0))) (\<lambda>f.
       Inr \<lparr>nb_a = a1, nb_c = c, nb_t0 = t0, nb_t1 = t1, nb_step = step, nb_bins = bins,
            kwargs_pcolormesh =
              \<lparr>kw_cmap = ''terrain_r'', kw_vmin = 0, kw_vmax = 2, kw_factor = Some f,
               kw_name = ''count'', kw_norm = None\<rparr>,
            nb_trace = [LoadFile Anticyclonic, LoadFile Cyclonic, ReadPeriod Anticyclonic]\<rparr>))))"

subsection \<open>The library methods \<open>grid_count\<close> and \<open>display\<close>\<close>

text \<open>
  Modelled from the spec: the method \<open>grid_count\<close> of the observation class is not
  among the sources. The spec gives bin edges as start/stop/step, the lattice as the
  half-open interval from start to stop, the shape as (stop - start) / step on each
  axis, the values as the counts of eddy centres, and a bin with no observation as
  masked. Bin \<open>k\<close> of an axis covers start + k * step up to start + (k + 1) * step
  (excluded), for every \<open>k\<close> with start + k * step below stop, and a centre outside
  start to stop is in no bin. This is the call with \<open>intern=True, center=True\<close>, the
  only one the notebook makes. The observation set is only read.
\<close>

definition n_bins :: "axis_bins \<Rightarrow> nat" where
  "n_bins b = (case b of (lo, hi, w) \<Rightarrow> if w \<le> 0 then 0 else nat \<lceil>(hi - lo) / w\<rceil>)"

definition bin_edges :: "axis_bins \<Rightarrow> rat list" where
  "bin_edges b = (case b of (lo, hi, w) \<Rightarrow> map (\<lambda>k. lo + of_nat k * w) [0..<Suc (n_bins b)])"

definition bin_index :: "axis_bins \<Rightarrow> rat \<Rightarrow> nat option" where
  "bin_index b x = (case b of (lo, hi, w) \<Rightarrow>
     if 0 < w \<and> lo \<le> x \<and> x < hi then Some (nat \<lfloor>(x - lo) / w\<rfloor>) else None)"

definition grid_shape :: "axis_bins \<times> axis_bins \<Rightarrow> nat \<times> nat" where
  "grid_shape bs = (n_bins (fst bs), n_bins (snd bs))"

definition cell_count :: "(rat \<times> rat) list \<Rightarrow> axis_bins \<times> axis_bins \<Rightarrow> nat \<Rightarrow> nat \<Rightarrow> nat" where
  "cell_count cs bs i j =
     length (filter (\<lambda>(x, y). bin_index (fst bs) x = Some i \<and> bin_index (snd bs) y = Some j) cs)"

definition count_values :: "(rat \<times> rat) list \<Rightarrow> axis_bins \<times> axis_bins \<Rightarrow> rat list" where
  "count_values cs bs =
     map (\<lambda>k. of_nat (cell_count cs bs (k div n_bins (snd bs)) (k mod n_bins (snd bs))))
       [0..<ncells (grid_shape bs)]"

text \<open>Modelled from the spec: \<open>grid_count\<close> itself. The grid gets two new buffers,
  the counts and their mask, and the variable \<open>count\<close>.\<close>

definition grid_count :: "heap \<Rightarrow> observations \<Rightarrow> axis_bins \<times> axis_bins \<Rightarrow> heap \<times> grid" where
  "grid_count h obs bs =
     (let vals = count_values (centers obs) bs;
          (h1, d) = alloc_data h vals;
          (h2, k) = alloc_mask h1 (map (\<lambda>v. v = 0) vals)
      in (h2, \<lparr>x_edges = bin_edges (fst bs), y_edges = bin_edges (snd bs),
                vars = (\<lambda>_. None)(''count'' := Some \<lparr>shape = grid_shape bs, dref = d, mref = k\<rparr>)\<rparr>))"

text \<open>
  Modelled from the spec: the call \<open>obs.grid_count(...)\<close> on an observation object. The
  spec has the observation sets immutable once loaded, so the call gives the grid and
  the object as it was.
\<close>

definition call_grid_count ::
  "heap \<Rightarrow> observations \<Rightarrow> axis_bins \<times> axis_bins \<Rightarrow> (heap \<times> grid) \<times> observations" where
  "call_grid_count h obs bs = (grid_count h obs bs, obs)"

text \<open>The figure: a list of axes, each with its settings and what was drawn on it.\<close>

record mesh =
  mesh_x :: "rat list"
  mesh_y :: "rat list"
  mesh_shape :: "nat \<times> nat"
  mesh_values :: "rat list"
  mesh_mask :: "bool list"
  mesh_factor :: rat
  mesh_cmap :: string
  mesh_vmin :: rat
  mesh_vmax :: rat
  mesh_norm :: color_norm

record axes =
  rect :: "rat \<times> rat \<times> rat \<times> rat"
  title :: string
  aspect :: string
  xlim :: "rat \<times> rat"
  ylim :: "rat \<times> rat"
  grid_on :: bool
  meshes :: "mesh list"
  colorbar_of :: "nat option"
  label :: string

record figure =
  figsize :: "rat \<times> rat"
  axes_list :: "axes list"

text \<open>New axes: no title, automatic aspect, unit limits, no gridlines, nothing drawn.\<close>

definition new_axes :: "rat \<times> rat \<times> rat \<times> rat \<Rightarrow> axes" where
  "new_axes r = \<lparr>rect = r, title = [], aspect = ''auto'', xlim = (0, 1), ylim = (0, 1),
                  grid_on = False, meshes = [], colorbar_of = None, label = []\<rparr>"

definition add_axes :: "figure \<Rightarrow> rat \<times> rat \<times> rat \<times> rat \<Rightarrow> figure \<times> nat" where
  "add_axes fig r = (fig\<lparr>axes_list := axes_list fig @ [new_axes r]\<rparr>, length (axes_list fig))"

definition update_axes :: "figure \<Rightarrow> nat \<Rightarrow> (axes \<Rightarrow> axes) \<Rightarrow> figure" where
  "update_axes fig ax f = fig\<lparr>axes_list := (axes_list fig)[ax := f (axes_list fig ! ax)]\<rparr>"

definition set_title :: "figure \<Rightarrow> nat \<Rightarrow> string \<Rightarrow> figure" where
  "set_title fig ax t = update_axes fig ax (\<lambda>x. x\<lparr>title := t\<rparr>)"

definition set_aspect :: "figure \<Rightarrow> nat \<Rightarrow> string \<Rightarrow> figure" where
  "set_aspect fig ax v = update_axes fig ax (\<lambda>x. x\<lparr>aspect := v\<rparr>)"

definition set_xlim :: "figure \<Rightarrow> nat \<Rightarrow> rat \<times> rat \<Rightarrow> figure" where
  "set_xlim fig ax v = update_axes fig ax (\<lambda>x. x\<lparr>xlim := v\<rparr>)"

definition set_ylim :: "figure \<Rightarrow> nat \<Rightarrow> rat \<times> rat \<Rightarrow> figure" where
  "set_ylim fig ax v = update_axes fig ax (\<lambda>x. x\<lparr>ylim := v\<rparr>)"

text \<open>\<open>ax.grid()\<close> with no argument toggles the gridlines; new axes have none.\<close>

definition toggle_grid :: "figure \<Rightarrow> nat \<Rightarrow> figure" where
  "toggle_grid fig ax = update_axes fig ax (\<lambda>x. x\<lparr>grid_on := \<not> grid_on x\<rparr>)"

text \<open>\<open>plt.colorbar(m, cax=...)\<close>: the axes \<open>cax\<close> become the colour bar of mesh \<open>m\<close>.\<close>

definition colorbar :: "figure \<Rightarrow> nat \<Rightarrow> nat \<Rightarrow> figure \<times> nat" where
  "colorbar fig m cax = (update_axes fig cax (\<lambda>x. x\<lparr>colorbar_of := Some m\<rparr>), cax)"

definition set_label :: "figure \<Rightarrow> nat \<Rightarrow> string \<Rightarrow> figure" where
  "set_label fig cb t = update_axes fig cb (\<lambda>x. x\<lparr>label := t\<rparr>)"

text \<open>
  Modelled from the spec: the method \<open>display\<close> of the grid class is not among the
  sources. The spec has the grid normalised by the factor it is given, drawn with the
  given colour limits and scale, and nothing fed back into the pipeline: the store and
  the grid are left as they are, and the axes receive a mesh of the named variable's
  values, each multiplied by the factor (1 when none is passed), with the colour scale
  linear when no \<open>norm\<close> is passed. The result is the handle of the mesh, here the
  index of its axes.
\<close>

definition mesh_of :: "grid \<Rightarrow> nat \<times> nat \<Rightarrow> rat list \<Rightarrow> bool list \<Rightarrow> kwargs \<Rightarrow> mesh" where
  "mesh_of g s vals msk kw =
     (let f = (case kw_factor kw of None \<Rightarrow> 1 | Some f \<Rightarrow> f)
      in \<lparr>mesh_x = x_edges g, mesh_y = y_edges g, mesh_shape = s,
          mesh_values = map (\<lambda>v. v * f) vals, mesh_mask = msk, mesh_factor = f,
          mesh_cmap = kw_cmap kw, mesh_vmin = kw_vmin kw, mesh_vmax = kw_vmax kw,
          mesh_norm = (case kw_norm kw of None \<Rightarrow> Linear | Some n \<Rightarrow> n)\<rparr>)"

definition make_mesh :: "heap \<Rightarrow> grid \<Rightarrow> marray \<Rightarrow> kwargs \<Rightarrow> mesh" where
  "make_mesh h g x kw = mesh_of g (shape x) (data_of h (dref x)) (mask_of h (mref x)) kw"

text \<open>Modelled from the spec: \<open>display\<close> itself. The variable is looked up by the
  name it is given; the axes exist, they are those the notebook made.\<close>

definition display :: "heap \<Rightarrow> figure \<Rightarrow> grid \<Rightarrow> nat \<Rightarrow> kwargs \<Rightarrow> error + (figure \<times> nat)" where
  "display h fig g ax kw =
     bindE (getvar g (kw_name kw)) (\<lambda>x.
       Inr (update_axes fig ax (\<lambda>p. p\<lparr>meshes := meshes p @ [make_mesh h g x kw]\<rparr>), ax))"

subsection \<open>Cell 6: the plot\<close>

text \<open>The figure and its four panels, from top to bottom.\<close>

definition make_figure :: "figure \<times> nat \<times> nat \<times> nat \<times> nat" where
  "make_figure =
     (let fig0 = \<lparr>figsize = (12, 185 / 10), axes_list = []\<rparr>;
          (fig1, ax_a) = add_axes fig0 (3 / 100, 75 / 100, 90 / 100, 25 / 100);
          fig2 = set_title fig1 ax_a ''Anticyclonic center frequency'';
          (fig3, ax_c) = add_axes fig2 (3 / 100, 5 / 10, 90 / 100, 25 / 100);
          fig4 = set_title fig3 ax_c ''Cyclonic center frequency'';
          (fig5, ax_all) = add_axes fig4 (3 / 100, 25 / 100, 90 / 100, 25 / 100);
          fig6 = set_title fig5 ax_all ''All eddies center frequency'';
          (fig7, ax_ratio) = add_axes fig6 (3 / 100, 0, 90 / 100, 25 / 100);
          fig8 = set_title fig7 ax_ratio ''Ratio cyclonic / Anticyclonic''
      in (fig8, ax_a, ax_c, ax_all, ax_ratio))"

text \<open>
  \<^verbatim>\<open>
  g_a = a.grid_count(bins, intern=True, center=True)
  g_a.display(ax_a, **kwargs_pcolormesh)
  g_c = c.grid_count(bins, intern=True, center=True)
  g_c.display(ax_c, **kwargs_pcolormesh)
  \<close>
  The store is empty before the first grid. The result carries the two observation
  objects as the calls leave them.
\<close>

definition empty_heap :: heap where
  "empty_heap = \<lparr>data_of = (\<lambda>_. []), mask_of = (\<lambda>_. []), next_ref = 0\<rparr>"

definition count_panels ::
  "namespace \<Rightarrow> figure \<Rightarrow> nat \<Rightarrow> nat \<Rightarrow>
     error + (heap \<times> figure \<times> grid \<times> grid \<times> observations \<times> observations \<times> access list)" where
  "count_panels ns fig ax_a ax_c =
     (let ((h1, g_a), a1) = call_grid_count empty_heap (nb_a ns) (nb_bins ns);
          tr1 = nb_trace ns @ [ReadGridCount Anticyclonic] in
     bindE (display h1 fig g_a ax_a (kwargs_pcolormesh ns)) (\<lambda>(fig1, _).
     (let ((h2, g_c), c1) = call_grid_count h1 (nb_c ns) (nb_bins ns);
          tr2 = tr1 @ [ReadGridCount Cyclonic] in
     bindE (display h2 fig1 g_c ax_c (kwargs_pcolormesh ns)) (\<lambda>(fig2, _).
       Inr (h2, fig2, g_a, g_c, a1, c1, tr2)))))"

text \<open>
  From the comment "Compute a ratio Cyclonic / Anticyclonic" to the second colour bar:
  the ratio, the mask manipulation, the panel of the sum with its colour bar, then
  \<open>g_c.vars["count"] = ratio\<close> and the panel of the ratio with its colour bar.
  The label of the first colour bar has a degree sign, written here as its two bytes.
\<close>

definition combine ::
  "heap \<Rightarrow> figure \<Rightarrow> grid \<Rightarrow> grid \<Rightarrow> kwargs \<Rightarrow> nat \<Rightarrow> nat \<Rightarrow>
     error + (heap \<times> figure \<times> grid \<times> marray \<times> barray \<times> nat)" where
  "combine h fig g_a g_c kw ax_all ax_ratio =
     bindE (compute_ratio h g_a g_c) (\<lambda>(h1, ratio).
     bindE (mask_manipulation h1 g_a g_c) (\<lambda>(h2, g_c1, m_c, m0).
     bindE (display h2 fig g_c1 ax_all kw) (\<lambda>(fig1, m1).
     (let (fig2, cax1) = add_axes fig1 (94 / 100, 27 / 100, 1 / 100, 7 / 10);
          (fig3, cb) = colorbar fig2 m1 cax1;
          fig4 = set_label fig3 cb (''Eddies by 1'' @ [CHR 0xC2, CHR 0xB0] @ ''^2 by day'');
          g_c2 = g_c1\<lparr>vars := (vars g_c1)(''count'' := Some ratio)\<rparr> in
     bindE (display h2 fig4 g_c2 ax_ratio
              \<lparr>kw_cmap = ''coolwarm_r'', kw_vmin = 1 / 10, kw_vmax = 10, kw_factor = None,
               kw_name = ''count'', kw_norm = Some LogNorm\<rparr>) (\<lambda>(fig5, m2).
     (let (fig6, cax2) = add_axes fig5 (94 / 100, 2 / 100, 1 / 100, 2 / 10);
          (fig7, _) = colorbar fig6 m2 cax2
      in Inr (h2, fig7, g_c2, ratio, m_c, m2)))))))"

text \<open>
  \<^verbatim>\<open>
  for ax in (ax_a, ax_c, ax_all, ax_ratio):
      ax.set_aspect("equal")
      ax.set_xlim(-6, 36.5), ax.set_ylim(30, 46)
      ax.grid()
  \<close>
\<close>

definition configure_axes :: "nat \<Rightarrow> figure \<Rightarrow> figure" where
  "configure_axes ax fig =
     toggle_grid (set_ylim (set_xlim (set_aspect fig ax ''equal'') ax (- 6, 365 / 10)) ax (30, 46)) ax"

text \<open>The state at the end of cell 6: the globals of cell 4, the store, the figure, and
  the variables of cell 6 (axes as indices into the figure; \<open>m\<close> is the handle of the
  last mesh, its last value).\<close>

record session =
  nb_globals :: namespace
  nb_store :: heap
  nb_fig :: figure
  nb_ax_a :: nat
  nb_ax_c :: nat
  nb_ax_all :: nat
  nb_ax_ratio :: nat
  nb_g_a :: grid
  nb_g_c :: grid
  nb_ratio :: marray
  nb_m_c :: barray
  nb_m :: nat

definition cell6 :: "namespace \<Rightarrow> error + session" where
  "cell6 ns =
     (let (fig0, ax_a, ax_c, ax_all, ax_ratio) = make_figure in
     bindE (count_panels ns fig0 ax_a ax_c) (\<lambda>(h1, fig1, g_a, g_c, a1, c1, tr).
     bindE (combine h1 fig1 g_a g_c (kwargs_pcolormesh ns) ax_all ax_ratio)
       (\<lambda>(h2, fig2, g_c1, ratio, m_c, m).
     (let fig3 = fold configure_axes [ax_a, ax_c, ax_all, ax_ratio] fig2
      in Inr \<lparr>nb_globals = ns\<lparr>nb_a := a1, nb_c := c1, nb_trace := tr\<rparr>,
               nb_store = h2, nb_fig = fig3,
               nb_ax_a = ax_a, nb_ax_c = ax_c, nb_ax_all = ax_all, nb_ax_ratio = ax_ratio,
               nb_g_a = g_a, nb_g_c = g_c1, nb_ratio = ratio, nb_m_c = m_c, nb_m = m\<rparr>))))"

text \<open>The notebook: cell 4, then cell 6.\<close>

definition notebook :: "env \<Rightarrow> error + session" where
  "notebook e = bindE (cell4 e) cell6"

subsection \<open>Small stores for the examples\<close>

text \<open>Two grids of three cells: the anticyclonic one has counts 1, 0, 0 and the
  cyclonic one 2, 1, 0, each masked where its count is zero.\<close>

definition ex_x_a :: marray where
  "ex_x_a = \<lparr>shape = (3, 1), dref = 0, mref = 1\<rparr>"

definition ex_x_c :: marray where
  "ex_x_c = \<lparr>shape = (3, 1), dref = 2, mref = 3\<rparr>"

definition ex_heap :: heap where
  "ex_heap = \<lparr>data_of = (\<lambda>_. [])(0 := [1, 0, 0], 2 := [2, 1, 0]),
              mask_of = (\<lambda>_. [])(1 := [False, True, True], 3 := [False, False, True]),
              next_ref = 4\<rparr>"

definition ex_g_a :: grid where
  "ex_g_a = \<lparr>x_edges = [0, 1, 2, 3], y_edges = [0, 1],
             vars = (\<lambda>_. None)(''count'' := Some ex_x_a)\<rparr>"

definition ex_g_c :: grid where
  "ex_g_c = \<lparr>x_edges = [0, 1, 2, 3], y_edges = [0, 1],
             vars = (\<lambda>_. None)(''count'' := Some ex_x_c)\<rparr>"

text \<open>Two grids of two cells with no cell masked: the anticyclonic one has counts
  1, 0 and the cyclonic one 2, 1.\<close>

definition zero_heap :: heap where
  "zero_heap = \<lparr>data_of = (\<lambda>_. [])(0 := [1, 0], 2 := [2, 1]),
                mask_of = (\<lambda>_. [])(1 := [False, False], 3 := [False, False]),
                next_ref = 4\<rparr>"

definition zero_g_a :: grid where
  "zero_g_a = \<lparr>x_edges = [0, 1, 2], y_edges = [0, 1],
               vars = (\<lambda>_. None)(''count'' := Some \<lparr>shape = (2, 1), dref = 0, mref = 1\<rparr>)\<rparr>"

definition zero_g_c :: grid where
  "zero_g_c = \<lparr>x_edges = [0, 1, 2], y_edges = [0, 1],
               vars = (\<lambda>_. None)(''count'' := Some \<lparr>shape = (2, 1), dref = 2, mref = 3\<rparr>)\<rparr>"

definition ex_kw :: kwargs where
  "ex_kw = \<lparr>kw_cmap = ''terrain_r'', kw_vmin = 0, kw_vmax = 2, kw_factor = Some (1 / 10),
            kw_name = ''count'', kw_norm = None\<rparr>"

text \<open>A small world: two files, the anticyclonic one of period 0 to 10 and the
  cyclonic one of period 5 to 25, found under the names the notebook gives.\<close>

definition ex_a :: observations where
  "ex_a = \<lparr>centers = [(0, 35)], period = (0, 10)\<rparr>"

definition ex_c :: observations where
  "ex_c = \<lparr>centers = [(1, 36), (0, 35)], period = (5, 25)\<rparr>"

definition ex_env :: env where
  "ex_env = \<lparr>get_path = (\<lambda>p. p),
              files = (\<lambda>_. None)
                (''eddies_med_adt_allsat_dt2018/Anticyclonic.zarr'' := Some ex_a,
                 ''eddies_med_adt_allsat_dt2018/Cyclonic.zarr'' := Some ex_c)\<rparr>"

text \<open>The value that the variable \<open>count\<close> of \<open>g_a\<close> holds at cell \<open>k\<close> at the end
  of a run, if the run ends and the variable exists.\<close>

definition anticyclonic_count_at :: "error + session \<Rightarrow> nat \<Rightarrow> rat option" where
  "anticyclonic_count_at r k =
     (case r of
        Inl _ \<Rightarrow> None
      | Inr s \<Rightarrow>
          (case vars (nb_g_a s) ''count'' of
             None \<Rightarrow> None
           | Some x \<Rightarrow> Some (data_of (nb_store s) (dref x) ! k)))"

section \<open>Properties\<close>

lemmas ex_defs = ex_x_a_def ex_x_c_def ex_heap_def ex_g_a_def ex_g_c_def

subsection \<open>The mask manipulation\<close>

text \<open>The store after the mask manipulation, for two grids of one shape in distinct
  buffers: \<open>m\<close> is a new mask, the cyclonic mask buffer holds a copy of it, and the
  cyclonic data buffer holds the sum.\<close>

lemma mask_manipulation_result:
  assumes c: "vars g_c ''count'' = Some x_c" and a: "vars g_a ''count'' = Some x_a"
    and sh: "shape x_c = shape x_a"
    and wc: "wf_marray h x_c" and wa: "wf_marray h x_a"
    and ne: "mref x_c \<noteq> mref x_a" "dref x_c \<noteq> dref x_a"
  shows "\<exists>h'. mask_manipulation h g_a g_c =
            Inr (h', g_c, get_mask x_c, \<lparr>bshape = shape x_c, bref = next_ref h\<rparr>) \<and>
          mask_of h' = (mask_of h)
            (next_ref h := map2 (\<and>) (mask_of h (mref x_c)) (mask_of h (mref x_a)),
             mref x_c := map2 (\<and>) (mask_of h (mref x_c)) (mask_of h (mref x_a))) \<and>
          data_of h' = (data_of h)
            (dref x_c := map2 (+) (put_where (mask_of h (mref x_c)) 0 (data_of h (dref x_c)))
               (map2 (\<lambda>b v. if b then 0 else v)
                  (map2 (\<or>) (put_where (mask_of h (mref x_c)) False (mask_of h (mref x_c)))
                     (mask_of h (mref x_a)))
                  (data_of h (dref x_a)))) \<and>
          next_ref h' = Suc (next_ref h)"
proof -
  have g: "g_c\<lparr>vars := (vars g_c)(''count'' := Some x_c)\<rparr> = g_c"
    using c by (simp add: fun_upd_idem)
  show ?thesis
    using assms g
    by (simp add: mask_manipulation_def getvar_def bindE_def logical_and_def alloc_mask_def
        setitem_bool_def iadd_def set_mask_def get_mask_def Let_def wf_marray_def)
qed

lemma nth_combined:
  assumes "length mc = n" "length ma = n" "length dc = n" "length da = n" "i < n"
  shows "map2 (+) (put_where mc (0::rat) dc)
           (map2 (\<lambda>b v. if b then 0 else v) (map2 (\<or>) (put_where mc False mc) ma) da) ! i
         = (if mc ! i then 0 else dc ! i) + (if ma ! i then 0 else da ! i)"
  using assms by (simp add: put_where_def)

text \<open>
  C1. After the mask manipulation the mask of the combined grid is the elementwise
  conjunction of the cyclonic grid's original mask and the anticyclonic grid's mask:
  a cell is masked in the combined grid if and only if it was masked in both grids.
  The anticyclonic mask is left as it was.
\<close>

theorem combined_mask_is_and:
  assumes c: "vars g_c ''count'' = Some x_c" and a: "vars g_a ''count'' = Some x_a"
    and sh: "shape x_c = shape x_a"
    and wc: "wf_marray h x_c" and wa: "wf_marray h x_a"
    and ne: "mref x_c \<noteq> mref x_a" "dref x_c \<noteq> dref x_a"
  shows "\<exists>h' g' m_c m. mask_manipulation h g_a g_c = Inr (h', g', m_c, m) \<and>
           vars g' ''count'' = Some x_c \<and>
           mask_of h' (mref x_c) = map2 (\<and>) (mask_of h (mref x_c)) (mask_of h (mref x_a)) \<and>
           mask_of h' (mref x_a) = mask_of h (mref x_a) \<and>
           length (mask_of h' (mref x_c)) = ncells (shape x_c) \<and>
           (\<forall>i < ncells (shape x_c).
              mask_of h' (mref x_c) ! i \<longleftrightarrow> mask_of h (mref x_c) ! i \<and> mask_of h (mref x_a) ! i)"
proof -
  from mask_manipulation_result [OF assms] obtain h' where
    r: "mask_manipulation h g_a g_c =
          Inr (h', g_c, get_mask x_c, \<lparr>bshape = shape x_c, bref = next_ref h\<rparr>)"
    and m: "mask_of h' = (mask_of h)
            (next_ref h := map2 (\<and>) (mask_of h (mref x_c)) (mask_of h (mref x_a)),
             mref x_c := map2 (\<and>) (mask_of h (mref x_c)) (mask_of h (mref x_a)))"
    by blast
  have lc: "length (mask_of h (mref x_c)) = ncells (shape x_c)"
    and la: "length (mask_of h (mref x_a)) = ncells (shape x_c)"
    and fa: "mref x_a \<noteq> next_ref h"
    using wc wa sh by (simp_all add: wf_marray_def)
  have "mask_of h' (mref x_c) = map2 (\<and>) (mask_of h (mref x_c)) (mask_of h (mref x_a))"
    by (simp add: m)
  moreover have "mask_of h' (mref x_a) = mask_of h (mref x_a)"
    using ne fa by (simp add: m)
  moreover have "\<forall>i < ncells (shape x_c).
      mask_of h' (mref x_c) ! i \<longleftrightarrow> mask_of h (mref x_c) ! i \<and> mask_of h (mref x_a) ! i"
    using lc la by (simp add: m)
  moreover have "length (mask_of h' (mref x_c)) = ncells (shape x_c)"
    using lc la by (simp add: m)
  ultimately show ?thesis using r c by simp
qed

theorem combined_mask_is_and_witness:
  "wf_marray ex_heap ex_x_c \<and> wf_marray ex_heap ex_x_a \<and> shape ex_x_c = shape ex_x_a \<and>
   (\<exists>h' g' m_c m. mask_manipulation ex_heap ex_g_a ex_g_c = Inr (h', g', m_c, m) \<and>
      mask_of h' (mref ex_x_c) = [False, False, True])"
proof -
  have c: "vars ex_g_c ''count'' = Some ex_x_c" and a: "vars ex_g_a ''count'' = Some ex_x_a"
    by (simp_all add: ex_defs)
  have sh: "shape ex_x_c = shape ex_x_a" by (simp add: ex_defs)
  have wc: "wf_marray ex_heap ex_x_c" and wa: "wf_marray ex_heap ex_x_a"
    by (simp_all add: ex_defs wf_marray_def ncells_def)
  have ne: "mref ex_x_c \<noteq> mref ex_x_a" "dref ex_x_c \<noteq> dref ex_x_a"
    by (simp_all add: ex_defs)
  from combined_mask_is_and [OF c a sh wc wa ne] obtain h' g' m_c m where
    "mask_manipulation ex_heap ex_g_a ex_g_c = Inr (h', g', m_c, m)"
    "mask_of h' (mref ex_x_c) =
       map2 (\<and>) (mask_of ex_heap (mref ex_x_c)) (mask_of ex_heap (mref ex_x_a))"
    by blast
  moreover have "map2 (\<and>) (mask_of ex_heap (mref ex_x_c)) (mask_of ex_heap (mref ex_x_a))
      = [False, False, True]"
    by (simp add: ex_defs)
  ultimately show ?thesis using sh wc wa by simp
qed

text \<open>
  C2. At every cell that is unmasked in the cyclonic grid, the combined grid holds the
  cyclonic count plus the anticyclonic count, a masked anticyclonic cell counting as
  zero; the cell is unmasked in the combined grid.
\<close>

theorem combined_value_is_sum:
  assumes c: "vars g_c ''count'' = Some x_c" and a: "vars g_a ''count'' = Some x_a"
    and sh: "shape x_c = shape x_a"
    and wc: "wf_marray h x_c" and wa: "wf_marray h x_a"
    and ne: "mref x_c \<noteq> mref x_a" "dref x_c \<noteq> dref x_a"
  shows "\<exists>h' g' m_c m. mask_manipulation h g_a g_c = Inr (h', g', m_c, m) \<and>
           vars g' ''count'' = Some x_c \<and>
           length (data_of h' (dref x_c)) = ncells (shape x_c) \<and>
           (\<forall>i < ncells (shape x_c). \<not> mask_of h (mref x_c) ! i \<longrightarrow>
              \<not> mask_of h' (mref x_c) ! i \<and>
              data_of h' (dref x_c) ! i =
                data_of h (dref x_c) ! i +
                (if mask_of h (mref x_a) ! i then 0 else data_of h (dref x_a) ! i))"
proof -
  from mask_manipulation_result [OF assms] obtain h' where
    r: "mask_manipulation h g_a g_c =
          Inr (h', g_c, get_mask x_c, \<lparr>bshape = shape x_c, bref = next_ref h\<rparr>)"
    and m: "mask_of h' (mref x_c) = map2 (\<and>) (mask_of h (mref x_c)) (mask_of h (mref x_a))"
    and d: "data_of h' (dref x_c) =
          map2 (+) (put_where (mask_of h (mref x_c)) 0 (data_of h (dref x_c)))
               (map2 (\<lambda>b v. if b then 0 else v)
                  (map2 (\<or>) (put_where (mask_of h (mref x_c)) False (mask_of h (mref x_c)))
                     (mask_of h (mref x_a)))
                  (data_of h (dref x_a)))"
    by auto
  have len: "length (mask_of h (mref x_c)) = ncells (shape x_c)"
    "length (mask_of h (mref x_a)) = ncells (shape x_c)"
    "length (data_of h (dref x_c)) = ncells (shape x_c)"
    "length (data_of h (dref x_a)) = ncells (shape x_c)"
    using wc wa sh by (simp_all add: wf_marray_def)
  have "length (data_of h' (dref x_c)) = ncells (shape x_c)"
    using len by (simp add: d put_where_def)
  moreover have "\<forall>i < ncells (shape x_c). \<not> mask_of h (mref x_c) ! i \<longrightarrow>
              \<not> mask_of h' (mref x_c) ! i \<and>
              data_of h' (dref x_c) ! i =
                data_of h (dref x_c) ! i +
                (if mask_of h (mref x_a) ! i then 0 else data_of h (dref x_a) ! i)"
    using len by (simp add: d m nth_combined [where n = "ncells (shape x_c)"])
  ultimately show ?thesis using r c by simp
qed

theorem combined_value_is_sum_witness:
  "wf_marray ex_heap ex_x_c \<and> wf_marray ex_heap ex_x_a \<and> shape ex_x_c = shape ex_x_a \<and>
   \<not> mask_of ex_heap (mref ex_x_c) ! 1 \<and> mask_of ex_heap (mref ex_x_a) ! 1 \<and>
   (\<exists>h' g' m_c m. mask_manipulation ex_heap ex_g_a ex_g_c = Inr (h', g', m_c, m) \<and>
      data_of h' (dref ex_x_c) ! 0 = 3 \<and> data_of h' (dref ex_x_c) ! 1 = 1)"
proof -
  have c: "vars ex_g_c ''count'' = Some ex_x_c" and a: "vars ex_g_a ''count'' = Some ex_x_a"
    by (simp_all add: ex_defs)
  have sh: "shape ex_x_c = shape ex_x_a" by (simp add: ex_defs)
  have wc: "wf_marray ex_heap ex_x_c" and wa: "wf_marray ex_heap ex_x_a"
    by (simp_all add: ex_defs wf_marray_def ncells_def)
  have ne: "mref ex_x_c \<noteq> mref ex_x_a" "dref ex_x_c \<noteq> dref ex_x_a"
    by (simp_all add: ex_defs)
  from combined_value_is_sum [OF c a sh wc wa ne] obtain h' g' m_c m where
    r: "mask_manipulation ex_heap ex_g_a ex_g_c = Inr (h', g', m_c, m)"
    and p: "\<forall>i < ncells (shape ex_x_c). \<not> mask_of ex_heap (mref ex_x_c) ! i \<longrightarrow>
              \<not> mask_of h' (mref ex_x_c) ! i \<and>
              data_of h' (dref ex_x_c) ! i =
                data_of ex_heap (dref ex_x_c) ! i +
                (if mask_of ex_heap (mref ex_x_a) ! i then 0 else data_of ex_heap (dref ex_x_a) ! i)"
    by blast
  have "data_of h' (dref ex_x_c) ! 0 = 3"
    using p [rule_format, of 0] by (simp add: ex_defs ncells_def)
  moreover have "data_of h' (dref ex_x_c) ! 1 = 1"
    using p [rule_format, of 1] by (simp add: ex_defs ncells_def)
  moreover have "\<not> mask_of ex_heap (mref ex_x_c) ! 1 \<and> mask_of ex_heap (mref ex_x_a) ! 1"
    by (simp add: ex_defs)
  ultimately show ?thesis using r sh wc wa by simp
qed

subsection \<open>The ratio\<close>

text \<open>The store after the ratio statement: two new buffers, nothing else written.\<close>

lemma compute_ratio_result:
  assumes c: "vars g_c ''count'' = Some x_c" and a: "vars g_a ''count'' = Some x_a"
    and sh: "shape x_c = shape x_a"
  shows "\<exists>h'. compute_ratio h g_a g_c =
            Inr (h', \<lparr>shape = shape x_c, dref = next_ref h, mref = Suc (next_ref h)\<rparr>) \<and>
          data_of h' = (data_of h)
            (next_ref h := map2 (\<lambda>k (a, b). if k then a else a / b)
               (map2 (\<or>) (map2 (\<or>) (mask_of h (mref x_c)) (mask_of h (mref x_a)))
                  (map (\<lambda>b. b = 0) (data_of h (dref x_a))))
               (zip (data_of h (dref x_c)) (data_of h (dref x_a)))) \<and>
          mask_of h' = (mask_of h)
            (Suc (next_ref h) := map2 (\<or>) (map2 (\<or>) (mask_of h (mref x_c)) (mask_of h (mref x_a)))
                  (map (\<lambda>b. b = 0) (data_of h (dref x_a)))) \<and>
          next_ref h' = Suc (Suc (next_ref h))"
  using assms
  by (simp add: compute_ratio_def getvar_def bindE_def truediv_def alloc_data_def alloc_mask_def
      Let_def)

lemma nth_ratio_mask:
  assumes "length mc = n" "length ma = n" "length da = n" "i < n"
  shows "map2 (\<or>) (map2 (\<or>) mc ma) (map (\<lambda>b. b = (0::rat)) da) ! i
           = (mc ! i \<or> ma ! i \<or> da ! i = 0)"
  using assms by simp

lemma nth_ratio_data:
  assumes "length mc = n" "length ma = n" "length da = n" "length dc = n" "i < n"
  shows "map2 (\<lambda>k (a, b). if k then a else a / b)
           (map2 (\<or>) (map2 (\<or>) mc ma) (map (\<lambda>b. b = (0::rat)) da)) (zip dc da) ! i
           = (if mc ! i \<or> ma ! i \<or> da ! i = 0 then dc ! i else dc ! i / da ! i)"
  using assms by simp

text \<open>
  C4, as the code has it. A zero anticyclonic count raises nothing in the ratio
  statement: the statement can only fail on a missing variable \<open>count\<close> or on two
  shapes that differ, and for two grids of one shape it returns a ratio array in which
  every cell whose anticyclonic count is zero is masked and keeps the cyclonic value as
  its data.
\<close>

theorem ratio_masks_zero_divisor:
  "(\<forall>e. compute_ratio h g_a g_c = Inl e \<longrightarrow> e = KeyError ''count'' \<or> e = ValueError) \<and>
   (vars g_c ''count'' = Some x_c \<longrightarrow> vars g_a ''count'' = Some x_a \<longrightarrow>
    shape x_c = shape x_a \<longrightarrow> wf_marray h x_c \<longrightarrow> wf_marray h x_a \<longrightarrow>
      (\<exists>h' r. compute_ratio h g_a g_c = Inr (h', r) \<and>
         (\<forall>i < ncells (shape x_a). data_of h (dref x_a) ! i = 0 \<longrightarrow>
            mask_of h' (mref r) ! i \<and> data_of h' (dref r) ! i = data_of h (dref x_c) ! i)))"
proof (intro conjI impI allI)
  fix e
  assume "compute_ratio h g_a g_c = Inl e"
  then show "e = KeyError ''count'' \<or> e = ValueError"
    by (auto simp: compute_ratio_def getvar_def bindE_def truediv_def alloc_data_def
        alloc_mask_def Let_def split: option.splits if_splits)
next
  assume c: "vars g_c ''count'' = Some x_c" and a: "vars g_a ''count'' = Some x_a"
    and sh: "shape x_c = shape x_a"
    and wc: "wf_marray h x_c" and wa: "wf_marray h x_a"
  from compute_ratio_result [OF c a sh, of h] obtain h' where
    r: "compute_ratio h g_a g_c =
            Inr (h', \<lparr>shape = shape x_c, dref = next_ref h, mref = Suc (next_ref h)\<rparr>)"
    and d: "data_of h' (next_ref h) = map2 (\<lambda>k (a, b). if k then a else a / b)
               (map2 (\<or>) (map2 (\<or>) (mask_of h (mref x_c)) (mask_of h (mref x_a)))
                  (map (\<lambda>b. b = 0) (data_of h (dref x_a))))
               (zip (data_of h (dref x_c)) (data_of h (dref x_a)))"
    and m: "mask_of h' (Suc (next_ref h)) =
              map2 (\<or>) (map2 (\<or>) (mask_of h (mref x_c)) (mask_of h (mref x_a)))
                  (map (\<lambda>b. b = 0) (data_of h (dref x_a)))"
    by auto
  have len: "length (mask_of h (mref x_c)) = ncells (shape x_a)"
    "length (mask_of h (mref x_a)) = ncells (shape x_a)"
    "length (data_of h (dref x_c)) = ncells (shape x_a)"
    "length (data_of h (dref x_a)) = ncells (shape x_a)"
    using wc wa sh by (simp_all add: wf_marray_def)
  have "\<forall>i < ncells (shape x_a). data_of h (dref x_a) ! i = 0 \<longrightarrow>
          mask_of h' (Suc (next_ref h)) ! i \<and> data_of h' (next_ref h) ! i = data_of h (dref x_c) ! i"
    using len by (simp add: d m)
  then show "\<exists>h' r. compute_ratio h g_a g_c = Inr (h', r) \<and>
         (\<forall>i < ncells (shape x_a). data_of h (dref x_a) ! i = 0 \<longrightarrow>
            mask_of h' (mref r) ! i \<and> data_of h' (dref r) ! i = data_of h (dref x_c) ! i)"
    using r by simp
qed

theorem ratio_masks_zero_divisor_witness:
  "wf_marray zero_heap \<lparr>shape = (2, 1), dref = 2, mref = 3\<rparr> \<and>
   wf_marray zero_heap \<lparr>shape = (2, 1), dref = 0, mref = 1\<rparr> \<and>
   data_of zero_heap 0 ! 1 = 0 \<and> \<not> mask_of zero_heap 1 ! 1 \<and>
   (\<exists>h' r. compute_ratio zero_heap zero_g_a zero_g_c = Inr (h', r) \<and>
      mask_of h' (mref r) ! 1 \<and> data_of h' (dref r) ! 1 = 1)"
proof -
  let ?xc = "\<lparr>shape = (2, 1), dref = 2, mref = 3\<rparr>"
  let ?xa = "\<lparr>shape = (2, 1), dref = 0, mref = 1\<rparr>"
  have c: "vars zero_g_c ''count'' = Some ?xc" and a: "vars zero_g_a ''count'' = Some ?xa"
    by (simp_all add: zero_g_c_def zero_g_a_def)
  have sh: "shape ?xc = shape ?xa" by simp
  have wc: "wf_marray zero_heap ?xc" and wa: "wf_marray zero_heap ?xa"
    by (simp_all add: zero_heap_def wf_marray_def ncells_def)
  from ratio_masks_zero_divisor [of zero_heap zero_g_a zero_g_c ?xc ?xa] c a sh wc wa
  obtain h' r where
    r: "compute_ratio zero_heap zero_g_a zero_g_c = Inr (h', r)"
    and p: "\<forall>i < ncells (shape ?xa). data_of zero_heap (dref ?xa) ! i = 0 \<longrightarrow>
              mask_of h' (mref r) ! i \<and> data_of h' (dref r) ! i = data_of zero_heap (dref ?xc) ! i"
    by blast
  have "mask_of h' (mref r) ! 1 \<and> data_of h' (dref r) ! 1 = 1"
    using p [rule_format, of 1] by (simp add: zero_heap_def ncells_def)
  moreover have "data_of zero_heap 0 ! 1 = 0 \<and> \<not> mask_of zero_heap 1 ! 1"
    by (simp add: zero_heap_def)
  ultimately show ?thesis using r wc wa by simp
qed

text \<open>
  C4, as the spec has it, fails: with an anticyclonic count of zero at an unmasked
  cell, the ratio statement returns normally, and that cell of the ratio is masked.
\<close>

theorem ratio_zero_divisor_returns:
  "compute_ratio zero_heap zero_g_a zero_g_c =
     Inr (zero_heap\<lparr>data_of := (data_of zero_heap)(4 := [2, 1]),
                    mask_of := (mask_of zero_heap)(5 := [False, True]),
                    next_ref := 6\<rparr>,
          \<lparr>shape = (2, 1), dref = 4, mref = 5\<rparr>)"
  by (simp add: compute_ratio_def getvar_def bindE_def truediv_def alloc_data_def alloc_mask_def
      Let_def zero_heap_def zero_g_a_def zero_g_c_def)

text \<open>
  C3. The ratio is computed into new buffers before the cyclonic buffers are written.
  So at the end of the second half of cell 6, when \<open>g_c.vars["count"]\<close> is the
  ratio, its value at every cell where both original counts are unmasked and the
  anticyclonic count is not zero is the original cyclonic count divided by the
  anticyclonic count, and the cell is unmasked; the cyclonic data buffer itself holds
  the sum by then.
\<close>

theorem ratio_is_original_quotient:
  assumes c: "vars g_c ''count'' = Some x_c" and a: "vars g_a ''count'' = Some x_a"
    and sh: "shape x_c = shape x_a"
    and wc: "wf_marray h x_c" and wa: "wf_marray h x_a"
    and ne: "mref x_c \<noteq> mref x_a" "dref x_c \<noteq> dref x_a"
    and kw: "kw_name kw = ''count''"
  shows "\<exists>h' fig' g' ratio m_c m.
           combine h fig g_a g_c kw ax_all ax_ratio = Inr (h', fig', g', ratio, m_c, m) \<and>
           vars g' ''count'' = Some ratio \<and> dref ratio \<noteq> dref x_c \<and>
           (\<forall>i < ncells (shape x_c).
              \<not> mask_of h (mref x_c) ! i \<and> \<not> mask_of h (mref x_a) ! i \<and>
              data_of h (dref x_a) ! i \<noteq> 0 \<longrightarrow>
                data_of h' (dref ratio) ! i = data_of h (dref x_c) ! i / data_of h (dref x_a) ! i \<and>
                \<not> mask_of h' (mref ratio) ! i \<and>
                data_of h' (dref x_c) ! i = data_of h (dref x_c) ! i + data_of h (dref x_a) ! i)"
proof -
  let ?r = "\<lparr>shape = shape x_c, dref = next_ref h, mref = Suc (next_ref h)\<rparr>"
  from compute_ratio_result [OF c a sh, of h] obtain h1 where
    r1: "compute_ratio h g_a g_c = Inr (h1, ?r)"
    and d1: "data_of h1 = (data_of h)
            (next_ref h := map2 (\<lambda>k (a, b). if k then a else a / b)
               (map2 (\<or>) (map2 (\<or>) (mask_of h (mref x_c)) (mask_of h (mref x_a)))
                  (map (\<lambda>b. b = 0) (data_of h (dref x_a))))
               (zip (data_of h (dref x_c)) (data_of h (dref x_a))))"
    and m1: "mask_of h1 = (mask_of h)
            (Suc (next_ref h) := map2 (\<or>) (map2 (\<or>) (mask_of h (mref x_c)) (mask_of h (mref x_a)))
                  (map (\<lambda>b. b = 0) (data_of h (dref x_a))))"
    and n1: "next_ref h1 = Suc (Suc (next_ref h))"
    by blast
  have lt: "dref x_c < next_ref h" "mref x_c < next_ref h" "dref x_a < next_ref h" "mref x_a < next_ref h"
    using wc wa by (simp_all add: wf_marray_def)
  have len: "length (mask_of h (mref x_c)) = ncells (shape x_c)"
    "length (mask_of h (mref x_a)) = ncells (shape x_c)"
    "length (data_of h (dref x_c)) = ncells (shape x_c)"
    "length (data_of h (dref x_a)) = ncells (shape x_c)"
    using wc wa sh by (simp_all add: wf_marray_def)
  have same: "data_of h1 (dref x_c) = data_of h (dref x_c)" "data_of h1 (dref x_a) = data_of h (dref x_a)"
    "mask_of h1 (mref x_c) = mask_of h (mref x_c)" "mask_of h1 (mref x_a) = mask_of h (mref x_a)"
    using lt by (simp_all add: d1 m1)
  have wc1: "wf_marray h1 x_c" and wa1: "wf_marray h1 x_a"
    using wc wa by (simp_all add: wf_marray_def same n1)
  from mask_manipulation_result [OF c a sh wc1 wa1 ne] obtain h2 where
    r2: "mask_manipulation h1 g_a g_c =
            Inr (h2, g_c, get_mask x_c, \<lparr>bshape = shape x_c, bref = next_ref h1\<rparr>)"
    and m2: "mask_of h2 = (mask_of h1)
            (next_ref h1 := map2 (\<and>) (mask_of h1 (mref x_c)) (mask_of h1 (mref x_a)),
             mref x_c := map2 (\<and>) (mask_of h1 (mref x_c)) (mask_of h1 (mref x_a)))"
    and d2: "data_of h2 = (data_of h1)
            (dref x_c := map2 (+) (put_where (mask_of h1 (mref x_c)) 0 (data_of h1 (dref x_c)))
               (map2 (\<lambda>b v. if b then 0 else v)
                  (map2 (\<or>) (put_where (mask_of h1 (mref x_c)) False (mask_of h1 (mref x_c)))
                     (mask_of h1 (mref x_a)))
                  (data_of h1 (dref x_a))))"
    by blast
  have run: "\<exists>fig'. combine h fig g_a g_c kw ax_all ax_ratio =
      Inr (h2, fig', g_c\<lparr>vars := (vars g_c)(''count'' := Some ?r)\<rparr>, ?r, get_mask x_c, ax_ratio)"
    using c kw
    by (simp add: combine_def r1 r2 bindE_def display_def getvar_def add_axes_def colorbar_def
        Let_def)
  have dr: "data_of h2 (next_ref h) = map2 (\<lambda>k (a, b). if k then a else a / b)
               (map2 (\<or>) (map2 (\<or>) (mask_of h (mref x_c)) (mask_of h (mref x_a)))
                  (map (\<lambda>b. b = 0) (data_of h (dref x_a))))
               (zip (data_of h (dref x_c)) (data_of h (dref x_a)))"
    using lt by (simp add: d2 d1)
  have mr: "mask_of h2 (Suc (next_ref h)) =
       map2 (\<or>) (map2 (\<or>) (mask_of h (mref x_c)) (mask_of h (mref x_a)))
                  (map (\<lambda>b. b = 0) (data_of h (dref x_a)))"
    using lt by (simp add: m2 m1 n1)
  have dc: "data_of h2 (dref x_c) =
       map2 (+) (put_where (mask_of h (mref x_c)) 0 (data_of h (dref x_c)))
               (map2 (\<lambda>b v. if b then 0 else v)
                  (map2 (\<or>) (put_where (mask_of h (mref x_c)) False (mask_of h (mref x_c)))
                     (mask_of h (mref x_a)))
                  (data_of h (dref x_a)))"
    by (simp add: d2 same)
  have cells: "\<forall>i < ncells (shape x_c).
              \<not> mask_of h (mref x_c) ! i \<and> \<not> mask_of h (mref x_a) ! i \<and>
              data_of h (dref x_a) ! i \<noteq> 0 \<longrightarrow>
                data_of h2 (next_ref h) ! i = data_of h (dref x_c) ! i / data_of h (dref x_a) ! i \<and>
                \<not> mask_of h2 (Suc (next_ref h)) ! i \<and>
                data_of h2 (dref x_c) ! i = data_of h (dref x_c) ! i + data_of h (dref x_a) ! i"
    using len
    by (simp add: dr mr dc nth_combined [where n = "ncells (shape x_c)"]
        nth_ratio_mask [where n = "ncells (shape x_c)"]
        nth_ratio_data [where n = "ncells (shape x_c)"] del: map_eq_conv)
  from run obtain fig' where
    "combine h fig g_a g_c kw ax_all ax_ratio =
      Inr (h2, fig', g_c\<lparr>vars := (vars g_c)(''count'' := Some ?r)\<rparr>, ?r, get_mask x_c, ax_ratio)"
    by blast
  then show ?thesis using cells lt by simp
qed

theorem ratio_is_original_quotient_witness:
  "wf_marray ex_heap ex_x_c \<and> wf_marray ex_heap ex_x_a \<and> shape ex_x_c = shape ex_x_a \<and>
   \<not> mask_of ex_heap (mref ex_x_c) ! 0 \<and> \<not> mask_of ex_heap (mref ex_x_a) ! 0 \<and>
   data_of ex_heap (dref ex_x_a) ! 0 \<noteq> 0 \<and>
   (\<exists>h' fig' g' ratio m_c m.
      combine ex_heap (fst make_figure) ex_g_a ex_g_c ex_kw 2 3 = Inr (h', fig', g', ratio, m_c, m) \<and>
      vars g' ''count'' = Some ratio \<and>
      data_of h' (dref ratio) ! 0 = 2 \<and> data_of h' (dref ex_x_c) ! 0 = 3)"
proof -
  have c: "vars ex_g_c ''count'' = Some ex_x_c" and a: "vars ex_g_a ''count'' = Some ex_x_a"
    by (simp_all add: ex_defs)
  have sh: "shape ex_x_c = shape ex_x_a" by (simp add: ex_defs)
  have wc: "wf_marray ex_heap ex_x_c" and wa: "wf_marray ex_heap ex_x_a"
    by (simp_all add: ex_defs wf_marray_def ncells_def)
  have ne: "mref ex_x_c \<noteq> mref ex_x_a" "dref ex_x_c \<noteq> dref ex_x_a"
    by (simp_all add: ex_defs)
  have kw: "kw_name ex_kw = ''count''" by (simp add: ex_kw_def)
  have pre: "\<not> mask_of ex_heap (mref ex_x_c) ! 0 \<and> \<not> mask_of ex_heap (mref ex_x_a) ! 0 \<and>
     data_of ex_heap (dref ex_x_a) ! 0 \<noteq> 0"
    by (simp add: ex_defs)
  from ratio_is_original_quotient [OF c a sh wc wa ne kw, of "fst make_figure" 2 3]
  obtain h' fig' g' ratio m_c m where
    r: "combine ex_heap (fst make_figure) ex_g_a ex_g_c ex_kw 2 3 = Inr (h', fig', g', ratio, m_c, m)"
    and v: "vars g' ''count'' = Some ratio"
    and p: "\<forall>i < ncells (shape ex_x_c).
              \<not> mask_of ex_heap (mref ex_x_c) ! i \<and> \<not> mask_of ex_heap (mref ex_x_a) ! i \<and>
              data_of ex_heap (dref ex_x_a) ! i \<noteq> 0 \<longrightarrow>
                data_of h' (dref ratio) ! i = data_of ex_heap (dref ex_x_c) ! i / data_of ex_heap (dref ex_x_a) ! i \<and>
                \<not> mask_of h' (mref ratio) ! i \<and>
                data_of h' (dref ex_x_c) ! i = data_of ex_heap (dref ex_x_c) ! i + data_of ex_heap (dref ex_x_a) ! i"
    by blast
  have "data_of h' (dref ratio) ! 0 = 2 \<and> data_of h' (dref ex_x_c) ! 0 = 3"
    using p [rule_format, of 0] by (simp add: ex_defs ncells_def)
  then show ?thesis using r v sh wc wa pre by simp
qed

subsection \<open>The whole notebook\<close>

text \<open>The state at the end of cell 6, for any namespace whose display arguments name
  the variable \<open>count\<close>: the six buffers of the store, the grids, and the six axes
  of the figure.\<close>

lemma count_values_length: "length (count_values cs bs) = ncells (grid_shape bs)"
  by (simp add: count_values_def)

lemma make_figure_eq:
  "make_figure =
     (\<lparr>figsize = (12, 185 / 10),
       axes_list =
         [(new_axes (3 / 100, 75 / 100, 90 / 100, 25 / 100))\<lparr>title := ''Anticyclonic center frequency''\<rparr>,
          (new_axes (3 / 100, 5 / 10, 90 / 100, 25 / 100))\<lparr>title := ''Cyclonic center frequency''\<rparr>,
          (new_axes (3 / 100, 25 / 100, 90 / 100, 25 / 100))\<lparr>title := ''All eddies center frequency''\<rparr>,
          (new_axes (3 / 100, 0, 90 / 100, 25 / 100))\<lparr>title := ''Ratio cyclonic / Anticyclonic''\<rparr>]\<rparr>,
      0, 1, 2, 3)"
  by (simp add: make_figure_def add_axes_def set_title_def update_axes_def Let_def)

lemma count_panels_result:
  assumes kw: "kw_name (kwargs_pcolormesh ns) = ''count''"
  shows "\<exists>h. count_panels ns fig ax_a ax_c =
      Inr (h,
           update_axes
             (update_axes fig ax_a (\<lambda>p. p\<lparr>meshes := meshes p @
                [mesh_of \<lparr>x_edges = bin_edges (fst (nb_bins ns)), y_edges = bin_edges (snd (nb_bins ns)),
                          vars = (\<lambda>_. None)(''count'' := Some \<lparr>shape = grid_shape (nb_bins ns), dref = 0, mref = 1\<rparr>)\<rparr>
                   (grid_shape (nb_bins ns))
                   (count_values (centers (nb_a ns)) (nb_bins ns))
                   (map (\<lambda>v. v = 0) (count_values (centers (nb_a ns)) (nb_bins ns)))
                   (kwargs_pcolormesh ns)]\<rparr>))
             ax_c (\<lambda>p. p\<lparr>meshes := meshes p @
                [mesh_of \<lparr>x_edges = bin_edges (fst (nb_bins ns)), y_edges = bin_edges (snd (nb_bins ns)),
                          vars = (\<lambda>_. None)(''count'' := Some \<lparr>shape = grid_shape (nb_bins ns), dref = 2, mref = 3\<rparr>)\<rparr>
                   (grid_shape (nb_bins ns))
                   (count_values (centers (nb_c ns)) (nb_bins ns))
                   (map (\<lambda>v. v = 0) (count_values (centers (nb_c ns)) (nb_bins ns)))
                   (kwargs_pcolormesh ns)]\<rparr>),
           \<lparr>x_edges = bin_edges (fst (nb_bins ns)), y_edges = bin_edges (snd (nb_bins ns)),
             vars = (\<lambda>_. None)(''count'' := Some \<lparr>shape = grid_shape (nb_bins ns), dref = 0, mref = 1\<rparr>)\<rparr>,
           \<lparr>x_edges = bin_edges (fst (nb_bins ns)), y_edges = bin_edges (snd (nb_bins ns)),
             vars = (\<lambda>_. None)(''count'' := Some \<lparr>shape = grid_shape (nb_bins ns), dref = 2, mref = 3\<rparr>)\<rparr>,
           nb_a ns, nb_c ns,
           nb_trace ns @ [ReadGridCount Anticyclonic, ReadGridCount Cyclonic]) \<and>
      data_of h = (\<lambda>_. [])(0 := count_values (centers (nb_a ns)) (nb_bins ns),
                           2 := count_values (centers (nb_c ns)) (nb_bins ns)) \<and>
      mask_of h = (\<lambda>_. [])(1 := map (\<lambda>v. v = 0) (count_values (centers (nb_a ns)) (nb_bins ns)),
                           3 := map (\<lambda>v. v = 0) (count_values (centers (nb_c ns)) (nb_bins ns))) \<and>
      next_ref h = 4"
  using kw
  by (simp add: count_panels_def call_grid_count_def grid_count_def alloc_data_def alloc_mask_def
      empty_heap_def display_def make_mesh_def getvar_def bindE_def Let_def eval_nat_numeral)


lemma cell6_result:
  assumes kw: "kw_name (kwargs_pcolormesh ns) = ''count''"
  shows "\<exists>s. cell6 ns = Inr s \<and>
    nb_globals s = ns\<lparr>nb_trace := nb_trace ns @ [ReadGridCount Anticyclonic, ReadGridCount Cyclonic]\<rparr> \<and>
    nb_ax_a s = 0 \<and> nb_ax_c s = 1 \<and> nb_ax_all s = 2 \<and> nb_ax_ratio s = 3 \<and>
    x_edges (nb_g_a s) = bin_edges (fst (nb_bins ns)) \<and>
    y_edges (nb_g_a s) = bin_edges (snd (nb_bins ns)) \<and>
    x_edges (nb_g_c s) = bin_edges (fst (nb_bins ns)) \<and>
    y_edges (nb_g_c s) = bin_edges (snd (nb_bins ns)) \<and>
    vars (nb_g_a s) ''count'' = Some \<lparr>shape = grid_shape (nb_bins ns), dref = 0, mref = 1\<rparr> \<and>
    vars (nb_g_c s) ''count'' = Some (nb_ratio s) \<and>
    nb_ratio s = \<lparr>shape = grid_shape (nb_bins ns), dref = 4, mref = 5\<rparr> \<and>
    nb_m_c s = \<lparr>bshape = grid_shape (nb_bins ns), bref = 3\<rparr> \<and>
    data_of (nb_store s) 0 = count_values (centers (nb_a ns)) (nb_bins ns) \<and>
    mask_of (nb_store s) 1 = map (\<lambda>v. v = 0) (count_values (centers (nb_a ns)) (nb_bins ns)) \<and>
    data_of (nb_store s) 2 =
      map2 (+)
        (put_where (map (\<lambda>v. v = 0) (count_values (centers (nb_c ns)) (nb_bins ns))) 0
           (count_values (centers (nb_c ns)) (nb_bins ns)))
        (map2 (\<lambda>b v. if b then 0 else v)
           (map2 (\<or>)
              (put_where (map (\<lambda>v. v = 0) (count_values (centers (nb_c ns)) (nb_bins ns))) False
                 (map (\<lambda>v. v = 0) (count_values (centers (nb_c ns)) (nb_bins ns))))
              (map (\<lambda>v. v = 0) (count_values (centers (nb_a ns)) (nb_bins ns))))
           (count_values (centers (nb_a ns)) (nb_bins ns))) \<and>
    mask_of (nb_store s) 3 =
      map2 (\<and>) (map (\<lambda>v. v = 0) (count_values (centers (nb_c ns)) (nb_bins ns)))
        (map (\<lambda>v. v = 0) (count_values (centers (nb_a ns)) (nb_bins ns))) \<and>
    data_of (nb_store s) 4 =
      map2 (\<lambda>k (a, b). if k then a else a / b)
        (map2 (\<or>)
           (map2 (\<or>) (map (\<lambda>v. v = 0) (count_values (centers (nb_c ns)) (nb_bins ns)))
              (map (\<lambda>v. v = 0) (count_values (centers (nb_a ns)) (nb_bins ns))))
           (map (\<lambda>b. b = 0) (count_values (centers (nb_a ns)) (nb_bins ns))))
        (zip (count_values (centers (nb_c ns)) (nb_bins ns))
           (count_values (centers (nb_a ns)) (nb_bins ns))) \<and>
    mask_of (nb_store s) 5 =
      map2 (\<or>)
        (map2 (\<or>) (map (\<lambda>v. v = 0) (count_values (centers (nb_c ns)) (nb_bins ns)))
           (map (\<lambda>v. v = 0) (count_values (centers (nb_a ns)) (nb_bins ns))))
        (map (\<lambda>b. b = 0) (count_values (centers (nb_a ns)) (nb_bins ns))) \<and>
    axes_list (nb_fig s) =
      [(new_axes (3 / 100, 75 / 100, 90 / 100, 25 / 100))
         \<lparr>title := ''Anticyclonic center frequency'', aspect := ''equal'',
          xlim := (- 6, 365 / 10), ylim := (30, 46), grid_on := True,
          meshes := [mesh_of (nb_g_a s) (grid_shape (nb_bins ns))
                       (count_values (centers (nb_a ns)) (nb_bins ns))
                       (map (\<lambda>v. v = 0) (count_values (centers (nb_a ns)) (nb_bins ns)))
                       (kwargs_pcolormesh ns)]\<rparr>,
       (new_axes (3 / 100, 5 / 10, 90 / 100, 25 / 100))
         \<lparr>title := ''Cyclonic center frequency'', aspect := ''equal'',
          xlim := (- 6, 365 / 10), ylim := (30, 46), grid_on := True,
          meshes := [mesh_of (nb_g_c s) (grid_shape (nb_bins ns))
                       (count_values (centers (nb_c ns)) (nb_bins ns))
                       (map (\<lambda>v. v = 0) (count_values (centers (nb_c ns)) (nb_bins ns)))
                       (kwargs_pcolormesh ns)]\<rparr>,
       (new_axes (3 / 100, 25 / 100, 90 / 100, 25 / 100))
         \<lparr>title := ''All eddies center frequency'', aspect := ''equal'',
          xlim := (- 6, 365 / 10), ylim := (30, 46), grid_on := True,
          meshes := [mesh_of (nb_g_c s) (grid_shape (nb_bins ns))
                       (data_of (nb_store s) 2) (mask_of (nb_store s) 3)
                       (kwargs_pcolormesh ns)]\<rparr>,
       (new_axes (3 / 100, 0, 90 / 100, 25 / 100))
         \<lparr>title := ''Ratio cyclonic / Anticyclonic'', aspect := ''equal'',
          xlim := (- 6, 365 / 10), ylim := (30, 46), grid_on := True,
          meshes := [mesh_of (nb_g_c s) (grid_shape (nb_bins ns))
                       (data_of (nb_store s) 4) (mask_of (nb_store s) 5)
                       \<lparr>kw_cmap = ''coolwarm_r'', kw_vmin = 1 / 10, kw_vmax = 10,
                        kw_factor = None, kw_name = ''count'', kw_norm = Some LogNorm\<rparr>]\<rparr>,
       (new_axes (94 / 100, 27 / 100, 1 / 100, 7 / 10))
         \<lparr>colorbar_of := Some 2,
          label := ''Eddies by 1'' @ [CHR 0xC2, CHR 0xB0] @ ''^2 by day''\<rparr>,
       (new_axes (94 / 100, 2 / 100, 1 / 100, 2 / 10))\<lparr>colorbar_of := Some 3\<rparr>]"
proof -
  define bs where "bs = nb_bins ns"
  define va where "va = count_values (centers (nb_a ns)) bs"
  define vc where "vc = count_values (centers (nb_c ns)) bs"
  define xa where "xa = \<lparr>shape = grid_shape bs, dref = 0, mref = 1\<rparr>"
  define xc where "xc = \<lparr>shape = grid_shape bs, dref = 2, mref = 3\<rparr>"
  define ga where "ga = \<lparr>x_edges = bin_edges (fst bs), y_edges = bin_edges (snd bs),
             vars = (\<lambda>_. None)(''count'' := Some xa)\<rparr>"
  define gc where "gc = \<lparr>x_edges = bin_edges (fst bs), y_edges = bin_edges (snd bs),
             vars = (\<lambda>_. None)(''count'' := Some xc)\<rparr>"
  define F where "F = fst make_figure"
  from count_panels_result [OF kw, of F 0 "Suc 0"] obtain h1 where
    r0: "count_panels ns F 0 (Suc 0) =
      Inr (h1,
           update_axes
             (update_axes F 0 (\<lambda>p. p\<lparr>meshes := meshes p @
                [mesh_of ga (grid_shape bs) va (map (\<lambda>v. v = 0) va) (kwargs_pcolormesh ns)]\<rparr>))
             (Suc 0) (\<lambda>p. p\<lparr>meshes := meshes p @
                [mesh_of gc (grid_shape bs) vc (map (\<lambda>v. v = 0) vc) (kwargs_pcolormesh ns)]\<rparr>),
           ga, gc, nb_a ns, nb_c ns,
           nb_trace ns @ [ReadGridCount Anticyclonic, ReadGridCount Cyclonic])"
    and d0: "data_of h1 = (\<lambda>_. [])(0 := va, 2 := vc)"
    and m0: "mask_of h1 = (\<lambda>_. [])(1 := map (\<lambda>v. v = 0) va, 3 := map (\<lambda>v. v = 0) vc)"
    and n0: "next_ref h1 = 4"
    unfolding bs_def va_def vc_def xa_def xc_def ga_def gc_def by blast
  have c: "vars gc ''count'' = Some xc" and a: "vars ga ''count'' = Some xa"
    by (simp_all add: gc_def ga_def)
  have sh: "shape xc = shape xa" by (simp add: xc_def xa_def)
  have wc: "wf_marray h1 xc" and wa: "wf_marray h1 xa"
    by (simp_all add: wf_marray_def xc_def xa_def d0 m0 n0 va_def vc_def count_values_length)
  have ne: "mref xc \<noteq> mref xa" "dref xc \<noteq> dref xa"
    by (simp_all add: xc_def xa_def)
  from compute_ratio_result [OF c a sh, of h1] obtain h2 where
    r1: "compute_ratio h1 ga gc = Inr (h2, \<lparr>shape = shape xc, dref = next_ref h1, mref = Suc (next_ref h1)\<rparr>)"
    and d1: "data_of h2 = (data_of h1)
            (next_ref h1 := map2 (\<lambda>k (a, b). if k then a else a / b)
               (map2 (\<or>) (map2 (\<or>) (mask_of h1 (mref xc)) (mask_of h1 (mref xa)))
                  (map (\<lambda>b. b = 0) (data_of h1 (dref xa))))
               (zip (data_of h1 (dref xc)) (data_of h1 (dref xa))))"
    and m1: "mask_of h2 = (mask_of h1)
            (Suc (next_ref h1) := map2 (\<or>) (map2 (\<or>) (mask_of h1 (mref xc)) (mask_of h1 (mref xa)))
                  (map (\<lambda>b. b = 0) (data_of h1 (dref xa))))"
    and n1: "next_ref h2 = Suc (Suc (next_ref h1))"
    by blast
  have wc2: "wf_marray h2 xc" and wa2: "wf_marray h2 xa"
    using wc wa by (simp_all add: wf_marray_def d1 m1 n1 n0 xc_def xa_def)
  from mask_manipulation_result [OF c a sh wc2 wa2 ne] obtain h3 where
    r2: "mask_manipulation h2 ga gc =
            Inr (h3, gc, get_mask xc, \<lparr>bshape = shape xc, bref = next_ref h2\<rparr>)"
    and m2: "mask_of h3 = (mask_of h2)
            (next_ref h2 := map2 (\<and>) (mask_of h2 (mref xc)) (mask_of h2 (mref xa)),
             mref xc := map2 (\<and>) (mask_of h2 (mref xc)) (mask_of h2 (mref xa)))"
    and d2: "data_of h3 = (data_of h2)
            (dref xc := map2 (+) (put_where (mask_of h2 (mref xc)) 0 (data_of h2 (dref xc)))
               (map2 (\<lambda>b v. if b then 0 else v)
                  (map2 (\<or>) (put_where (mask_of h2 (mref xc)) False (mask_of h2 (mref xc)))
                     (mask_of h2 (mref xa)))
                  (data_of h2 (dref xa))))"
    by blast
  have store: "data_of h3 0 = va" "mask_of h3 1 = map (\<lambda>v. v = 0) va"
    "data_of h3 2 = map2 (+) (put_where (map (\<lambda>v. v = 0) vc) 0 vc)
        (map2 (\<lambda>b v. if b then 0 else v)
           (map2 (\<or>) (put_where (map (\<lambda>v. v = 0) vc) False (map (\<lambda>v. v = 0) vc))
              (map (\<lambda>v. v = 0) va)) va)"
    "mask_of h3 3 = map2 (\<and>) (map (\<lambda>v. v = 0) vc) (map (\<lambda>v. v = 0) va)"
    "data_of h3 4 = map2 (\<lambda>k (a, b). if k then a else a / b)
        (map2 (\<or>) (map2 (\<or>) (map (\<lambda>v. v = 0) vc) (map (\<lambda>v. v = 0) va)) (map (\<lambda>b. b = 0) va))
        (zip vc va)"
    "mask_of h3 5 = map2 (\<or>) (map2 (\<or>) (map (\<lambda>v. v = 0) vc) (map (\<lambda>v. v = 0) va))
        (map (\<lambda>b. b = 0) va)"
    by (simp_all add: d2 m2 d1 m1 n1 d0 m0 n0 xc_def xa_def)
  have store1: "mask_of h3 (Suc 0) = map (\<lambda>v. v = 0) va"
    using store(2) by simp
  have fig: "make_figure = (F, 0, 1, 2, 3)"
    by (simp add: F_def make_figure_eq)
  have gc2: "x_edges (gc\<lparr>vars := v\<rparr>) = x_edges gc" "y_edges (gc\<lparr>vars := v\<rparr>) = y_edges gc" for v
    by simp_all
  show ?thesis
    unfolding bs_def [symmetric] va_def [symmetric] vc_def [symmetric]
    apply (simp add: cell6_def fig bindE_def r0 combine_def r1 r2 n0 n1 display_def getvar_def c
        kw store add_axes_def colorbar_def Let_def)
    apply (simp add: F_def make_figure_eq set_label_def update_axes_def
        configure_axes_def set_aspect_def set_xlim_def set_ylim_def toggle_grid_def
        make_mesh_def mesh_of_def new_axes_def store store1 get_mask_def xc_def xa_def ga_def gc_def)
    done
qed


lemma cell4_result:
  assumes fa: "files e (get_path e ''eddies_med_adt_allsat_dt2018/Anticyclonic.zarr'') = Some a"
    and fc: "files e (get_path e ''eddies_med_adt_allsat_dt2018/Cyclonic.zarr'') = Some c"
    and per: "fst (period a) \<noteq> snd (period a)"
  shows "cell4 e =
     Inr \<lparr>nb_a = a, nb_c = c, nb_t0 = fst (period a), nb_t1 = snd (period a),
          nb_step = step, nb_bins = bins,
          kwargs_pcolormesh =
            \<lparr>kw_cmap = ''terrain_r'', kw_vmin = 0, kw_vmax = 2,
             kw_factor = Some (1 / (step ^ 2 * (snd (period a) - fst (period a)))),
             kw_name = ''count'', kw_norm = None\<rparr>,
          nb_trace = [LoadFile Anticyclonic, LoadFile Cyclonic, ReadPeriod Anticyclonic]\<rparr>"
proof -
  have "step ^ 2 * (snd (period a) - fst (period a)) \<noteq> 0"
    using per by (simp add: step_def)
  then show ?thesis
    using fa fc
    by (simp add: cell4_def load_file_def read_period_def bindE_def py_div_def split_def Let_def)
qed

text \<open>Cell 4 succeeds when both files exist and the period of the anticyclonic set is
  not empty; the notebook is then cell 6 on the namespace of cell 4.\<close>

lemma notebook_eq:
  assumes fa: "files e (get_path e ''eddies_med_adt_allsat_dt2018/Anticyclonic.zarr'') = Some a"
    and fc: "files e (get_path e ''eddies_med_adt_allsat_dt2018/Cyclonic.zarr'') = Some c"
    and per: "fst (period a) \<noteq> snd (period a)"
  shows "notebook e = cell6
     \<lparr>nb_a = a, nb_c = c, nb_t0 = fst (period a), nb_t1 = snd (period a),
      nb_step = step, nb_bins = bins,
      kwargs_pcolormesh =
        \<lparr>kw_cmap = ''terrain_r'', kw_vmin = 0, kw_vmax = 2,
         kw_factor = Some (1 / (step ^ 2 * (snd (period a) - fst (period a)))),
         kw_name = ''count'', kw_norm = None\<rparr>,
      nb_trace = [LoadFile Anticyclonic, LoadFile Cyclonic, ReadPeriod Anticyclonic]\<rparr>"
  by (simp add: notebook_def cell4_result [OF fa fc per] bindE_def)

lemma ex_env_files:
  "files ex_env (get_path ex_env ''eddies_med_adt_allsat_dt2018/Anticyclonic.zarr'') = Some ex_a"
  "files ex_env (get_path ex_env ''eddies_med_adt_allsat_dt2018/Cyclonic.zarr'') = Some ex_c"
  "fst (period ex_a) \<noteq> snd (period ex_a)"
  by (simp_all add: ex_env_def ex_a_def)

lemma notebook_panels:
  assumes fa: "files e (get_path e ''eddies_med_adt_allsat_dt2018/Anticyclonic.zarr'') = Some a"
    and fc: "files e (get_path e ''eddies_med_adt_allsat_dt2018/Cyclonic.zarr'') = Some c"
    and per: "fst (period a) \<noteq> snd (period a)"
  shows "\<exists>s. notebook e = Inr s \<and>
     nb_ax_a s = 0 \<and> nb_ax_c s = 1 \<and> nb_ax_all s = 2 \<and> nb_ax_ratio s = 3 \<and>
     x_edges (nb_g_a s) = bin_edges (fst bins) \<and> y_edges (nb_g_a s) = bin_edges (snd bins) \<and>
     x_edges (nb_g_c s) = bin_edges (fst bins) \<and> y_edges (nb_g_c s) = bin_edges (snd bins) \<and>
     kwargs_pcolormesh (nb_globals s) = \<lparr>kw_cmap = ''terrain_r'', kw_vmin = 0, kw_vmax = 2,
          kw_factor = Some (1 / (step ^ 2 * (snd (period a) - fst (period a)))),
          kw_name = ''count'', kw_norm = None\<rparr> \<and>
     nb_bins (nb_globals s) = bins \<and>
     data_of (nb_store s) 2 =
       map2 (+)
         (put_where (map (\<lambda>v. v = 0) (count_values (centers c) bins)) 0
            (count_values (centers c) bins))
         (map2 (\<lambda>b v. if b then 0 else v)
            (map2 (\<or>)
               (put_where (map (\<lambda>v. v = 0) (count_values (centers c) bins)) False
                  (map (\<lambda>v. v = 0) (count_values (centers c) bins)))
               (map (\<lambda>v. v = 0) (count_values (centers a) bins)))
            (count_values (centers a) bins)) \<and>
     mask_of (nb_store s) 3 =
       map2 (\<and>) (map (\<lambda>v. v = 0) (count_values (centers c) bins))
         (map (\<lambda>v. v = 0) (count_values (centers a) bins)) \<and>
     meshes (axes_list (nb_fig s) ! 0) =
       [mesh_of (nb_g_a s) (grid_shape bins) (count_values (centers a) bins)
          (map (\<lambda>v. v = 0) (count_values (centers a) bins))
          \<lparr>kw_cmap = ''terrain_r'', kw_vmin = 0, kw_vmax = 2,
          kw_factor = Some (1 / (step ^ 2 * (snd (period a) - fst (period a)))),
          kw_name = ''count'', kw_norm = None\<rparr>] \<and>
     meshes (axes_list (nb_fig s) ! 1) =
       [mesh_of (nb_g_c s) (grid_shape bins) (count_values (centers c) bins)
          (map (\<lambda>v. v = 0) (count_values (centers c) bins))
          \<lparr>kw_cmap = ''terrain_r'', kw_vmin = 0, kw_vmax = 2,
          kw_factor = Some (1 / (step ^ 2 * (snd (period a) - fst (period a)))),
          kw_name = ''count'', kw_norm = None\<rparr>] \<and>
     meshes (axes_list (nb_fig s) ! 2) =
       [mesh_of (nb_g_c s) (grid_shape bins) (data_of (nb_store s) 2) (mask_of (nb_store s) 3)
          \<lparr>kw_cmap = ''terrain_r'', kw_vmin = 0, kw_vmax = 2,
          kw_factor = Some (1 / (step ^ 2 * (snd (period a) - fst (period a)))),
          kw_name = ''count'', kw_norm = None\<rparr>] \<and>
     vars (nb_g_a s) ''count'' = Some \<lparr>shape = grid_shape bins, dref = 0, mref = 1\<rparr> \<and>
     data_of (nb_store s) 0 = count_values (centers a) bins"
proof -
  let ?ns = "\<lparr>nb_a = a, nb_c = c, nb_t0 = fst (period a), nb_t1 = snd (period a),
      nb_step = step, nb_bins = bins,
      kwargs_pcolormesh =
        \<lparr>kw_cmap = ''terrain_r'', kw_vmin = 0, kw_vmax = 2,
         kw_factor = Some (1 / (step ^ 2 * (snd (period a) - fst (period a)))),
         kw_name = ''count'', kw_norm = None\<rparr>,
      nb_trace = [LoadFile Anticyclonic, LoadFile Cyclonic, ReadPeriod Anticyclonic]\<rparr>"
  have kw: "kw_name (kwargs_pcolormesh ?ns) = ''count''" by simp
  from cell6_result [OF kw] obtain s where
    r: "cell6 ?ns = Inr s"
    and g: "nb_globals s =
      ?ns\<lparr>nb_trace := nb_trace ?ns @ [ReadGridCount Anticyclonic, ReadGridCount Cyclonic]\<rparr>"
    and ix: "nb_ax_a s = 0" "nb_ax_c s = 1" "nb_ax_all s = 2" "nb_ax_ratio s = 3"
    and ed: "x_edges (nb_g_a s) = bin_edges (fst (nb_bins ?ns))"
      "y_edges (nb_g_a s) = bin_edges (snd (nb_bins ?ns))"
      "x_edges (nb_g_c s) = bin_edges (fst (nb_bins ?ns))"
      "y_edges (nb_g_c s) = bin_edges (snd (nb_bins ?ns))"
    and va: "vars (nb_g_a s) ''count'' =
        Some \<lparr>shape = grid_shape (nb_bins ?ns), dref = 0, mref = 1\<rparr>"
      "data_of (nb_store s) 0 = count_values (centers (nb_a ?ns)) (nb_bins ?ns)"
    and st: "data_of (nb_store s) 2 =
      map2 (+)
        (put_where (map (\<lambda>v. v = 0) (count_values (centers (nb_c ?ns)) (nb_bins ?ns))) 0
           (count_values (centers (nb_c ?ns)) (nb_bins ?ns)))
        (map2 (\<lambda>b v. if b then 0 else v)
           (map2 (\<or>)
              (put_where (map (\<lambda>v. v = 0) (count_values (centers (nb_c ?ns)) (nb_bins ?ns))) False
                 (map (\<lambda>v. v = 0) (count_values (centers (nb_c ?ns)) (nb_bins ?ns))))
              (map (\<lambda>v. v = 0) (count_values (centers (nb_a ?ns)) (nb_bins ?ns))))
           (count_values (centers (nb_a ?ns)) (nb_bins ?ns)))"
      "mask_of (nb_store s) 3 =
      map2 (\<and>) (map (\<lambda>v. v = 0) (count_values (centers (nb_c ?ns)) (nb_bins ?ns)))
        (map (\<lambda>v. v = 0) (count_values (centers (nb_a ?ns)) (nb_bins ?ns)))"
    and ax: "axes_list (nb_fig s) =
      [(new_axes (3 / 100, 75 / 100, 90 / 100, 25 / 100))
         \<lparr>title := ''Anticyclonic center frequency'', aspect := ''equal'',
          xlim := (- 6, 365 / 10), ylim := (30, 46), grid_on := True,
          meshes := [mesh_of (nb_g_a s) (grid_shape (nb_bins ?ns))
                       (count_values (centers (nb_a ?ns)) (nb_bins ?ns))
                       (map (\<lambda>v. v = 0) (count_values (centers (nb_a ?ns)) (nb_bins ?ns)))
                       (kwargs_pcolormesh ?ns)]\<rparr>,
       (new_axes (3 / 100, 5 / 10, 90 / 100, 25 / 100))
         \<lparr>title := ''Cyclonic center frequency'', aspect := ''equal'',
          xlim := (- 6, 365 / 10), ylim := (30, 46), grid_on := True,
          meshes := [mesh_of (nb_g_c s) (grid_shape (nb_bins ?ns))
                       (count_values (centers (nb_c ?ns)) (nb_bins ?ns))
                       (map (\<lambda>v. v = 0) (count_values (centers (nb_c ?ns)) (nb_bins ?ns)))
                       (kwargs_pcolormesh ?ns)]\<rparr>,
       (new_axes (3 / 100, 25 / 100, 90 / 100, 25 / 100))
         \<lparr>title := ''All eddies center frequency'', aspect := ''equal'',
          xlim := (- 6, 365 / 10), ylim := (30, 46), grid_on := True,
          meshes := [mesh_of (nb_g_c s) (grid_shape (nb_bins ?ns))
                       (data_of (nb_store s) 2) (mask_of (nb_store s) 3)
                       (kwargs_pcolormesh ?ns)]\<rparr>,
       (new_axes (3 / 100, 0, 90 / 100, 25 / 100))
         \<lparr>title := ''Ratio cyclonic / Anticyclonic'', aspect := ''equal'',
          xlim := (- 6, 365 / 10), ylim := (30, 46), grid_on := True,
          meshes := [mesh_of (nb_g_c s) (grid_shape (nb_bins ?ns))
                       (data_of (nb_store s) 4) (mask_of (nb_store s) 5)
                       \<lparr>kw_cmap = ''coolwarm_r'', kw_vmin = 1 / 10, kw_vmax = 10,
                        kw_factor = None, kw_name = ''count'', kw_norm = Some LogNorm\<rparr>]\<rparr>,
       (new_axes (94 / 100, 27 / 100, 1 / 100, 7 / 10))
         \<lparr>colorbar_of := Some 2,
          label := ''Eddies by 1'' @ [CHR 0xC2, CHR 0xB0] @ ''^2 by day''\<rparr>,
       (new_axes (94 / 100, 2 / 100, 1 / 100, 2 / 10))\<lparr>colorbar_of := Some 3\<rparr>]"
    by blast
  have n: "notebook e = Inr s" by (simp add: notebook_eq [OF fa fc per] r)
  have e1: "x_edges (nb_g_a s) = bin_edges (fst bins)" "y_edges (nb_g_a s) = bin_edges (snd bins)"
    "x_edges (nb_g_c s) = bin_edges (fst bins)" "y_edges (nb_g_c s) = bin_edges (snd bins)"
    using ed by simp_all
  have k1: "kwargs_pcolormesh (nb_globals s) = \<lparr>kw_cmap = ''terrain_r'', kw_vmin = 0, kw_vmax = 2,
          kw_factor = Some (1 / (step ^ 2 * (snd (period a) - fst (period a)))),
          kw_name = ''count'', kw_norm = None\<rparr>"
    "nb_bins (nb_globals s) = bins"
    by (simp_all add: g)
  have m0: "meshes (axes_list (nb_fig s) ! 0) =
       [mesh_of (nb_g_a s) (grid_shape bins) (count_values (centers a) bins)
          (map (\<lambda>v. v = 0) (count_values (centers a) bins))
          \<lparr>kw_cmap = ''terrain_r'', kw_vmin = 0, kw_vmax = 2,
          kw_factor = Some (1 / (step ^ 2 * (snd (period a) - fst (period a)))),
          kw_name = ''count'', kw_norm = None\<rparr>]"
    by (simp add: ax)
  have m1: "meshes (axes_list (nb_fig s) ! 1) =
       [mesh_of (nb_g_c s) (grid_shape bins) (count_values (centers c) bins)
          (map (\<lambda>v. v = 0) (count_values (centers c) bins))
          \<lparr>kw_cmap = ''terrain_r'', kw_vmin = 0, kw_vmax = 2,
          kw_factor = Some (1 / (step ^ 2 * (snd (period a) - fst (period a)))),
          kw_name = ''count'', kw_norm = None\<rparr>]"
    by (simp add: ax)
  have m2: "meshes (axes_list (nb_fig s) ! 2) =
       [mesh_of (nb_g_c s) (grid_shape bins) (data_of (nb_store s) 2) (mask_of (nb_store s) 3)
          \<lparr>kw_cmap = ''terrain_r'', kw_vmin = 0, kw_vmax = 2,
          kw_factor = Some (1 / (step ^ 2 * (snd (period a) - fst (period a)))),
          kw_name = ''count'', kw_norm = None\<rparr>]"
    by (simp add: ax)
  have s2: "data_of (nb_store s) 2 =
       map2 (+)
         (put_where (map (\<lambda>v. v = 0) (count_values (centers c) bins)) 0
            (count_values (centers c) bins))
         (map2 (\<lambda>b v. if b then 0 else v)
            (map2 (\<or>)
               (put_where (map (\<lambda>v. v = 0) (count_values (centers c) bins)) False
                  (map (\<lambda>v. v = 0) (count_values (centers c) bins)))
               (map (\<lambda>v. v = 0) (count_values (centers a) bins)))
            (count_values (centers a) bins))"
    using st(1) by simp
  have s3: "mask_of (nb_store s) 3 =
       map2 (\<and>) (map (\<lambda>v. v = 0) (count_values (centers c) bins))
         (map (\<lambda>v. v = 0) (count_values (centers a) bins))"
    using st(2) by simp
  have r0: "vars (nb_g_a s) ''count'' = Some \<lparr>shape = grid_shape bins, dref = 0, mref = 1\<rparr>"
    "data_of (nb_store s) 0 = count_values (centers a) bins"
    using va by simp_all
  show ?thesis
    using n ix e1 k1 s2 s3 m0 m1 m2 r0 by blast
qed


text \<open>
  C5, as the code has it. The grid that \<open>grid_count\<close> returns holds the plain counts
  of eddy centres: the call is given the bins only. The normalisation is applied when a
  grid is drawn: \<open>display\<close> is given the factor 1 / (step^2 * (t1 - t0)), with
  \<open>step\<close> the step of the bins and (t0, t1) the period of the anticyclonic set, for
  the anticyclonic and for the cyclonic grid alike, and the values drawn on the two
  count panels are the counts multiplied by that factor.
\<close>

theorem count_panels_normalised:
  assumes fa: "files e (get_path e ''eddies_med_adt_allsat_dt2018/Anticyclonic.zarr'') = Some a"
    and fc: "files e (get_path e ''eddies_med_adt_allsat_dt2018/Cyclonic.zarr'') = Some c"
    and per: "fst (period a) \<noteq> snd (period a)"
  shows "\<exists>s x_a m_a m_c. notebook e = Inr s \<and>
     nb_bins (nb_globals s) = ((- 10, 37, step), (30, 46, step)) \<and>
     kw_factor (kwargs_pcolormesh (nb_globals s)) = Some (1 / (step ^ 2 * (snd (period a) - fst (period a)))) \<and>
     vars (nb_g_a s) ''count'' = Some x_a \<and>
     data_of (nb_store s) (dref x_a) = count_values (centers a) bins \<and>
     (\<forall>k < ncells (grid_shape bins).
        data_of (nb_store s) (dref x_a) ! k =
          of_nat (cell_count (centers a) bins (k div n_bins (snd bins)) (k mod n_bins (snd bins)))) \<and>
     meshes (axes_list (nb_fig s) ! nb_ax_a s) = [m_a] \<and>
     meshes (axes_list (nb_fig s) ! nb_ax_c s) = [m_c] \<and>
     mesh_factor m_a = (1 / (step ^ 2 * (snd (period a) - fst (period a)))) \<and>
     mesh_factor m_c = (1 / (step ^ 2 * (snd (period a) - fst (period a)))) \<and>
     mesh_values m_a = map (\<lambda>v. v * (1 / (step ^ 2 * (snd (period a) - fst (period a))))) (count_values (centers a) bins) \<and>
     mesh_values m_c = map (\<lambda>v. v * (1 / (step ^ 2 * (snd (period a) - fst (period a))))) (count_values (centers c) bins)"
proof -
  from notebook_panels [OF fa fc per] obtain s where
    n: "notebook e = Inr s"
    and ix: "nb_ax_a s = 0" "nb_ax_c s = 1"
    and k: "kwargs_pcolormesh (nb_globals s) = \<lparr>kw_cmap = ''terrain_r'', kw_vmin = 0, kw_vmax = 2,
          kw_factor = Some (1 / (step ^ 2 * (snd (period a) - fst (period a)))),
          kw_name = ''count'', kw_norm = None\<rparr>"
      "nb_bins (nb_globals s) = bins"
    and m0: "meshes (axes_list (nb_fig s) ! 0) =
       [mesh_of (nb_g_a s) (grid_shape bins) (count_values (centers a) bins)
          (map (\<lambda>v. v = 0) (count_values (centers a) bins))
          \<lparr>kw_cmap = ''terrain_r'', kw_vmin = 0, kw_vmax = 2,
          kw_factor = Some (1 / (step ^ 2 * (snd (period a) - fst (period a)))),
          kw_name = ''count'', kw_norm = None\<rparr>]"
    and m1: "meshes (axes_list (nb_fig s) ! 1) =
       [mesh_of (nb_g_c s) (grid_shape bins) (count_values (centers c) bins)
          (map (\<lambda>v. v = 0) (count_values (centers c) bins))
          \<lparr>kw_cmap = ''terrain_r'', kw_vmin = 0, kw_vmax = 2,
          kw_factor = Some (1 / (step ^ 2 * (snd (period a) - fst (period a)))),
          kw_name = ''count'', kw_norm = None\<rparr>]"
    and r0: "vars (nb_g_a s) ''count'' = Some \<lparr>shape = grid_shape bins, dref = 0, mref = 1\<rparr>"
      "data_of (nb_store s) 0 = count_values (centers a) bins"
    by blast
  note m1 = m1 [unfolded One_nat_def]
  have raw: "\<forall>k < ncells (grid_shape bins).
        count_values (centers a) bins ! k =
          of_nat (cell_count (centers a) bins (k div n_bins (snd bins)) (k mod n_bins (snd bins)))"
    by (simp add: count_values_def)
  show ?thesis
    using n raw by (simp add: ix k m0 m1 r0 mesh_of_def bins_def)
qed

theorem count_panels_normalised_witness:
  "files ex_env (get_path ex_env ''eddies_med_adt_allsat_dt2018/Anticyclonic.zarr'') = Some ex_a \<and>
   files ex_env (get_path ex_env ''eddies_med_adt_allsat_dt2018/Cyclonic.zarr'') = Some ex_c \<and>
   fst (period ex_a) \<noteq> snd (period ex_a) \<and>
   (\<exists>s x_a m_a. notebook ex_env = Inr s \<and>
      kw_factor (kwargs_pcolormesh (nb_globals s)) = Some (32 / 5) \<and>
      vars (nb_g_a s) ''count'' = Some x_a \<and>
      data_of (nb_store s) (dref x_a) = count_values (centers ex_a) bins \<and>
      meshes (axes_list (nb_fig s) ! nb_ax_a s) = [m_a] \<and>
      mesh_values m_a = map (\<lambda>v. v * (32 / 5)) (count_values (centers ex_a) bins))"
proof -
  have f: "1 / (step ^ 2 * (snd (period ex_a) - fst (period ex_a))) = 32 / 5"
    by (simp add: step_def ex_a_def power2_eq_square)
  from count_panels_normalised [OF ex_env_files] show ?thesis
    unfolding f using ex_env_files by blast
qed

text \<open>
  C5, as the spec has it, fails: in the small world the anticyclonic set has one centre,
  in cell 10280 (column 80, row 40), and the factor is 32 / 5; at the end of the run the
  grid holds 1 there, the count, not the count multiplied by the factor.
\<close>

theorem binner_grid_holds_raw_counts:
  "anticyclonic_count_at (notebook ex_env) 10280 = Some 1 \<and>
   cell_count (centers ex_a) bins (10280 div 128) (10280 mod 128) = 1 \<and>
   1 / (step ^ 2 * (snd (period ex_a) - fst (period ex_a))) = 32 / 5"
proof -
  have g: "grid_shape bins = (376, 128)"
    by (simp add: grid_shape_def bins_def step_def n_bins_def)
  have c: "cell_count (centers ex_a) bins 80 40 = 1"
    by (simp add: cell_count_def ex_a_def bin_index_def bins_def step_def)
  have v: "count_values (centers ex_a) bins ! 10280 = 1"
    using g by (simp add: count_values_def grid_shape_def ncells_def c)
  have f: "1 / (step ^ 2 * (snd (period ex_a) - fst (period ex_a))) = 32 / 5"
    by (simp add: step_def ex_a_def power2_eq_square)
  from notebook_panels [OF ex_env_files] obtain s where
    n: "notebook ex_env = Inr s"
    and r0: "vars (nb_g_a s) ''count'' = Some \<lparr>shape = grid_shape bins, dref = 0, mref = 1\<rparr>"
      "data_of (nb_store s) 0 = count_values (centers ex_a) bins"
    by blast
  have "anticyclonic_count_at (notebook ex_env) 10280 = Some 1"
    by (simp add: anticyclonic_count_at_def n r0 v)
  then show ?thesis using c f by simp
qed

text \<open>
  C6. In every run the anticyclonic, the cyclonic and the combined count grid, as
  drawn, have the same shape and the same bin edges, those of the one \<open>bins\<close>
  value, and as many values as the shape has cells.
\<close>

theorem grids_share_shape_and_edges:
  assumes fa: "files e (get_path e ''eddies_med_adt_allsat_dt2018/Anticyclonic.zarr'') = Some a"
    and fc: "files e (get_path e ''eddies_med_adt_allsat_dt2018/Cyclonic.zarr'') = Some c"
    and per: "fst (period a) \<noteq> snd (period a)"
  shows "\<exists>s m_a m_c m_all. notebook e = Inr s \<and>
     meshes (axes_list (nb_fig s) ! nb_ax_a s) = [m_a] \<and>
     meshes (axes_list (nb_fig s) ! nb_ax_c s) = [m_c] \<and>
     meshes (axes_list (nb_fig s) ! nb_ax_all s) = [m_all] \<and>
     mesh_shape m_a = grid_shape bins \<and> mesh_shape m_c = mesh_shape m_a \<and>
     mesh_shape m_all = mesh_shape m_a \<and>
     mesh_x m_a = bin_edges (fst bins) \<and> mesh_x m_c = mesh_x m_a \<and> mesh_x m_all = mesh_x m_a \<and>
     mesh_y m_a = bin_edges (snd bins) \<and> mesh_y m_c = mesh_y m_a \<and> mesh_y m_all = mesh_y m_a \<and>
     x_edges (nb_g_c s) = x_edges (nb_g_a s) \<and> y_edges (nb_g_c s) = y_edges (nb_g_a s) \<and>
     length (mesh_values m_a) = ncells (grid_shape bins) \<and>
     length (mesh_values m_c) = ncells (grid_shape bins) \<and>
     length (mesh_values m_all) = ncells (grid_shape bins)"
proof -
  from notebook_panels [OF fa fc per] obtain s where
    n: "notebook e = Inr s"
    and ix: "nb_ax_a s = 0" "nb_ax_c s = 1" "nb_ax_all s = 2"
    and ed: "x_edges (nb_g_a s) = bin_edges (fst bins)" "y_edges (nb_g_a s) = bin_edges (snd bins)"
      "x_edges (nb_g_c s) = bin_edges (fst bins)" "y_edges (nb_g_c s) = bin_edges (snd bins)"
    and k: "kwargs_pcolormesh (nb_globals s) = \<lparr>kw_cmap = ''terrain_r'', kw_vmin = 0, kw_vmax = 2,
          kw_factor = Some (1 / (step ^ 2 * (snd (period a) - fst (period a)))),
          kw_name = ''count'', kw_norm = None\<rparr>"
      "nb_bins (nb_globals s) = bins"
    and s2: "data_of (nb_store s) 2 =
       map2 (+)
         (put_where (map (\<lambda>v. v = 0) (count_values (centers c) bins)) 0
            (count_values (centers c) bins))
         (map2 (\<lambda>b v. if b then 0 else v)
            (map2 (\<or>)
               (put_where (map (\<lambda>v. v = 0) (count_values (centers c) bins)) False
                  (map (\<lambda>v. v = 0) (count_values (centers c) bins)))
               (map (\<lambda>v. v = 0) (count_values (centers a) bins)))
            (count_values (centers a) bins))"
    and m0: "meshes (axes_list (nb_fig s) ! 0) =
       [mesh_of (nb_g_a s) (grid_shape bins) (count_values (centers a) bins)
          (map (\<lambda>v. v = 0) (count_values (centers a) bins))
          \<lparr>kw_cmap = ''terrain_r'', kw_vmin = 0, kw_vmax = 2,
          kw_factor = Some (1 / (step ^ 2 * (snd (period a) - fst (period a)))),
          kw_name = ''count'', kw_norm = None\<rparr>]"
    and m1: "meshes (axes_list (nb_fig s) ! 1) =
       [mesh_of (nb_g_c s) (grid_shape bins) (count_values (centers c) bins)
          (map (\<lambda>v. v = 0) (count_values (centers c) bins))
          \<lparr>kw_cmap = ''terrain_r'', kw_vmin = 0, kw_vmax = 2,
          kw_factor = Some (1 / (step ^ 2 * (snd (period a) - fst (period a)))),
          kw_name = ''count'', kw_norm = None\<rparr>]"
    and m2: "meshes (axes_list (nb_fig s) ! 2) =
       [mesh_of (nb_g_c s) (grid_shape bins) (data_of (nb_store s) 2) (mask_of (nb_store s) 3)
          \<lparr>kw_cmap = ''terrain_r'', kw_vmin = 0, kw_vmax = 2,
          kw_factor = Some (1 / (step ^ 2 * (snd (period a) - fst (period a)))),
          kw_name = ''count'', kw_norm = None\<rparr>]"
    by blast
  note m1 = m1 [unfolded One_nat_def]
  have l2: "length (data_of (nb_store s) 2) = ncells (grid_shape bins)"
    by (simp add: s2 put_where_def count_values_length)
  show ?thesis
    using n by (simp add: ix ed m0 m1 m2 mesh_of_def count_values_length l2)
qed

theorem grids_share_shape_and_edges_witness:
  "files ex_env (get_path ex_env ''eddies_med_adt_allsat_dt2018/Anticyclonic.zarr'') = Some ex_a \<and>
   files ex_env (get_path ex_env ''eddies_med_adt_allsat_dt2018/Cyclonic.zarr'') = Some ex_c \<and>
   fst (period ex_a) \<noteq> snd (period ex_a) \<and>
   (\<exists>s m_a m_c m_all. notebook ex_env = Inr s \<and>
     meshes (axes_list (nb_fig s) ! nb_ax_a s) = [m_a] \<and>
     meshes (axes_list (nb_fig s) ! nb_ax_c s) = [m_c] \<and>
     meshes (axes_list (nb_fig s) ! nb_ax_all s) = [m_all] \<and>
     mesh_shape m_a = (376, 128) \<and> mesh_shape m_c = (376, 128) \<and> mesh_shape m_all = (376, 128))"
proof -
  have g: "grid_shape bins = (376, 128)"
    by (simp add: grid_shape_def bins_def step_def n_bins_def)
  from grids_share_shape_and_edges [OF ex_env_files] obtain s m_a m_c m_all where
    "notebook ex_env = Inr s"
    "meshes (axes_list (nb_fig s) ! nb_ax_a s) = [m_a]"
    "meshes (axes_list (nb_fig s) ! nb_ax_c s) = [m_c]"
    "meshes (axes_list (nb_fig s) ! nb_ax_all s) = [m_all]"
    "mesh_shape m_a = grid_shape bins" "mesh_shape m_c = mesh_shape m_a"
    "mesh_shape m_all = mesh_shape m_a"
    by blast
  then show ?thesis using ex_env_files g by auto
qed

text \<open>
  C7. With longitude from -10 to 37 and latitude from 30 to 46, both in steps of
  0.125, the count grids have shape (376, 128), which is ((37 - (-10)) / 0.125,
  (46 - 30) / 0.125) in exact arithmetic.
\<close>

theorem notebook_grid_shape:
  "grid_shape bins = (376, 128) \<and>
   (37 - (- 10)) / step = 376 \<and> (46 - 30) / step = 128 \<and>
   (\<forall>h obs. \<exists>h' g x. grid_count h obs bins = (h', g) \<and> vars g ''count'' = Some x \<and>
      shape x = (376, 128) \<and> length (data_of h' (dref x)) = 376 * 128 \<and>
      length (mask_of h' (mref x)) = 376 * 128)"
proof -
  have s: "grid_shape bins = (376, 128)"
    by (simp add: grid_shape_def bins_def step_def n_bins_def)
  have q: "(37 - (- 10)) / step = 376 \<and> (46 - 30) / step = 128"
    by (simp add: step_def)
  have "\<exists>h' g x. grid_count h obs bins = (h', g) \<and> vars g ''count'' = Some x \<and>
      shape x = (376, 128) \<and> length (data_of h' (dref x)) = 376 * 128 \<and>
      length (mask_of h' (mref x)) = 376 * 128" for h obs
    by (simp add: grid_count_def alloc_data_def alloc_mask_def Let_def count_values_length s
        ncells_def)
  then show ?thesis using s q by blast
qed


text \<open>
  C9. The four panels get the same x limits (-6, 36.5), y limits (30, 46), equal
  aspect and gridlines; each of the three count panels has one mesh, on a linear colour
  scale from 0 to 2, and the ratio panel one mesh on a logarithmic scale from 0.1 to 10.
\<close>

theorem panels_configured_alike:
  assumes fa: "files e (get_path e ''eddies_med_adt_allsat_dt2018/Anticyclonic.zarr'') = Some a"
    and fc: "files e (get_path e ''eddies_med_adt_allsat_dt2018/Cyclonic.zarr'') = Some c"
    and per: "fst (period a) \<noteq> snd (period a)"
  shows "\<exists>s. notebook e = Inr s \<and>
     (\<forall>ax \<in> set [nb_ax_a s, nb_ax_c s, nb_ax_all s, nb_ax_ratio s].
        xlim (axes_list (nb_fig s) ! ax) = (- 6, 365 / 10) \<and>
        ylim (axes_list (nb_fig s) ! ax) = (30, 46) \<and>
        aspect (axes_list (nb_fig s) ! ax) = ''equal'' \<and>
        grid_on (axes_list (nb_fig s) ! ax)) \<and>
     (\<forall>ax \<in> set [nb_ax_a s, nb_ax_c s, nb_ax_all s].
        map (\<lambda>m. (mesh_norm m, mesh_vmin m, mesh_vmax m)) (meshes (axes_list (nb_fig s) ! ax))
          = [(Linear, 0, 2)]) \<and>
     map (\<lambda>m. (mesh_norm m, mesh_vmin m, mesh_vmax m)) (meshes (axes_list (nb_fig s) ! nb_ax_ratio s))
       = [(LogNorm, 1 / 10, 10)]"
proof -
  let ?ns = "\<lparr>nb_a = a, nb_c = c, nb_t0 = fst (period a), nb_t1 = snd (period a),
      nb_step = step, nb_bins = bins,
      kwargs_pcolormesh =
        \<lparr>kw_cmap = ''terrain_r'', kw_vmin = 0, kw_vmax = 2,
         kw_factor = Some (1 / (step ^ 2 * (snd (period a) - fst (period a)))),
         kw_name = ''count'', kw_norm = None\<rparr>,
      nb_trace = [LoadFile Anticyclonic, LoadFile Cyclonic, ReadPeriod Anticyclonic]\<rparr>"
  have kw: "kw_name (kwargs_pcolormesh ?ns) = ''count''" by simp
  from cell6_result [OF kw] obtain s where
    r: "cell6 ?ns = Inr s"
    and ix: "nb_ax_a s = 0" "nb_ax_c s = 1" "nb_ax_all s = 2" "nb_ax_ratio s = 3"
    and ax: "axes_list (nb_fig s) =
      [(new_axes (3 / 100, 75 / 100, 90 / 100, 25 / 100))
         \<lparr>title := ''Anticyclonic center frequency'', aspect := ''equal'',
          xlim := (- 6, 365 / 10), ylim := (30, 46), grid_on := True,
          meshes := [mesh_of (nb_g_a s) (grid_shape (nb_bins ?ns))
                       (count_values (centers (nb_a ?ns)) (nb_bins ?ns))
                       (map (\<lambda>v. v = 0) (count_values (centers (nb_a ?ns)) (nb_bins ?ns)))
                       (kwargs_pcolormesh ?ns)]\<rparr>,
       (new_axes (3 / 100, 5 / 10, 90 / 100, 25 / 100))
         \<lparr>title := ''Cyclonic center frequency'', aspect := ''equal'',
          xlim := (- 6, 365 / 10), ylim := (30, 46), grid_on := True,
          meshes := [mesh_of (nb_g_c s) (grid_shape (nb_bins ?ns))
                       (count_values (centers (nb_c ?ns)) (nb_bins ?ns))
                       (map (\<lambda>v. v = 0) (count_values (centers (nb_c ?ns)) (nb_bins ?ns)))
                       (kwargs_pcolormesh ?ns)]\<rparr>,
       (new_axes (3 / 100, 25 / 100, 90 / 100, 25 / 100))
         \<lparr>title := ''All eddies center frequency'', aspect := ''equal'',
          xlim := (- 6, 365 / 10), ylim := (30, 46), grid_on := True,
          meshes := [mesh_of (nb_g_c s) (grid_shape (nb_bins ?ns))
                       (data_of (nb_store s) 2) (mask_of (nb_store s) 3)
                       (kwargs_pcolormesh ?ns)]\<rparr>,
       (new_axes (3 / 100, 0, 90 / 100, 25 / 100))
         \<lparr>title := ''Ratio cyclonic / Anticyclonic'', aspect := ''equal'',
          xlim := (- 6, 365 / 10), ylim := (30, 46), grid_on := True,
          meshes := [mesh_of (nb_g_c s) (grid_shape (nb_bins ?ns))
                       (data_of (nb_store s) 4) (mask_of (nb_store s) 5)
                       \<lparr>kw_cmap = ''coolwarm_r'', kw_vmin = 1 / 10, kw_vmax = 10,
                        kw_factor = None, kw_name = ''count'', kw_norm = Some LogNorm\<rparr>]\<rparr>,
       (new_axes (94 / 100, 27 / 100, 1 / 100, 7 / 10))
         \<lparr>colorbar_of := Some 2,
          label := ''Eddies by 1'' @ [CHR 0xC2, CHR 0xB0] @ ''^2 by day''\<rparr>,
       (new_axes (94 / 100, 2 / 100, 1 / 100, 2 / 10))\<lparr>colorbar_of := Some 3\<rparr>]"
    by blast
  have "notebook e = Inr s" by (simp add: notebook_eq [OF fa fc per] r)
  then show ?thesis
    by (simp add: ix ax mesh_of_def new_axes_def)
qed


theorem panels_configured_alike_witness:
  "files ex_env (get_path ex_env ''eddies_med_adt_allsat_dt2018/Anticyclonic.zarr'') = Some ex_a \<and>
   files ex_env (get_path ex_env ''eddies_med_adt_allsat_dt2018/Cyclonic.zarr'') = Some ex_c \<and>
   fst (period ex_a) \<noteq> snd (period ex_a) \<and>
   (\<exists>s. notebook ex_env = Inr s \<and>
      xlim (axes_list (nb_fig s) ! nb_ax_ratio s) = (- 6, 365 / 10) \<and>
      ylim (axes_list (nb_fig s) ! nb_ax_ratio s) = (30, 46) \<and>
      aspect (axes_list (nb_fig s) ! nb_ax_ratio s) = ''equal'' \<and>
      grid_on (axes_list (nb_fig s) ! nb_ax_ratio s) \<and>
      map (\<lambda>m. (mesh_norm m, mesh_vmin m, mesh_vmax m))
        (meshes (axes_list (nb_fig s) ! nb_ax_a s)) = [(Linear, 0, 2)] \<and>
      map (\<lambda>m. (mesh_norm m, mesh_vmin m, mesh_vmax m))
        (meshes (axes_list (nb_fig s) ! nb_ax_ratio s)) = [(LogNorm, 1 / 10, 10)])"
  using panels_configured_alike [OF ex_env_files] ex_env_files by auto

lemma nth_sum_counts:
  assumes "length vc = n" "length va = n" "i < n"
  shows "map2 (+) (put_where (map (\<lambda>v. v = 0) vc) (0::rat) vc)
           (map2 (\<lambda>b v. if b then 0 else v)
              (map2 (\<or>) (put_where (map (\<lambda>v. v = 0) vc) False (map (\<lambda>v. v = 0) vc))
                 (map (\<lambda>v. v = 0) va)) va) ! i
         = vc ! i + va ! i"
  using assms by (simp add: nth_combined [where n = n])

text \<open>
  C10. The anticyclonic, the cyclonic and the combined grid are all drawn with the
  factor 1 / (step^2 * (t1 - t0)) where (t0, t1) is the period of the anticyclonic set;
  when the cyclonic set has a period of another length, the factor is not the one its
  own period would give.
\<close>

theorem factor_from_anticyclonic_period:
  assumes fa: "files e (get_path e ''eddies_med_adt_allsat_dt2018/Anticyclonic.zarr'') = Some a"
    and fc: "files e (get_path e ''eddies_med_adt_allsat_dt2018/Cyclonic.zarr'') = Some c"
    and per: "fst (period a) \<noteq> snd (period a)"
  shows "\<exists>s m_a m_c m_all. notebook e = Inr s \<and>
     meshes (axes_list (nb_fig s) ! nb_ax_a s) = [m_a] \<and>
     meshes (axes_list (nb_fig s) ! nb_ax_c s) = [m_c] \<and>
     meshes (axes_list (nb_fig s) ! nb_ax_all s) = [m_all] \<and>
     mesh_factor m_a = (1 / (step ^ 2 * (snd (period a) - fst (period a)))) \<and>
     mesh_factor m_c = (1 / (step ^ 2 * (snd (period a) - fst (period a)))) \<and>
     mesh_factor m_all = (1 / (step ^ 2 * (snd (period a) - fst (period a)))) \<and>
     (snd (period c) - fst (period c) \<noteq> snd (period a) - fst (period a) \<longrightarrow>
        mesh_factor m_c \<noteq> 1 / (step ^ 2 * (snd (period c) - fst (period c)))) \<and>
     mesh_values m_c = map (\<lambda>v. v * (1 / (step ^ 2 * (snd (period a) - fst (period a))))) (count_values (centers c) bins) \<and>
     (\<forall>i < ncells (grid_shape bins).
        mesh_values m_all ! i =
          (count_values (centers c) bins ! i + count_values (centers a) bins ! i) * (1 / (step ^ 2 * (snd (period a) - fst (period a)))))"
proof -
  from notebook_panels [OF fa fc per] obtain s where
    n: "notebook e = Inr s"
    and ix: "nb_ax_a s = 0" "nb_ax_c s = 1" "nb_ax_all s = 2"
    and ed: "x_edges (nb_g_a s) = bin_edges (fst bins)" "y_edges (nb_g_a s) = bin_edges (snd bins)"
      "x_edges (nb_g_c s) = bin_edges (fst bins)" "y_edges (nb_g_c s) = bin_edges (snd bins)"
    and k: "kwargs_pcolormesh (nb_globals s) = \<lparr>kw_cmap = ''terrain_r'', kw_vmin = 0, kw_vmax = 2,
          kw_factor = Some (1 / (step ^ 2 * (snd (period a) - fst (period a)))),
          kw_name = ''count'', kw_norm = None\<rparr>"
      "nb_bins (nb_globals s) = bins"
    and s2: "data_of (nb_store s) 2 =
       map2 (+)
         (put_where (map (\<lambda>v. v = 0) (count_values (centers c) bins)) 0
            (count_values (centers c) bins))
         (map2 (\<lambda>b v. if b then 0 else v)
            (map2 (\<or>)
               (put_where (map (\<lambda>v. v = 0) (count_values (centers c) bins)) False
                  (map (\<lambda>v. v = 0) (count_values (centers c) bins)))
               (map (\<lambda>v. v = 0) (count_values (centers a) bins)))
            (count_values (centers a) bins))"
    and m0: "meshes (axes_list (nb_fig s) ! 0) =
       [mesh_of (nb_g_a s) (grid_shape bins) (count_values (centers a) bins)
          (map (\<lambda>v. v = 0) (count_values (centers a) bins))
          \<lparr>kw_cmap = ''terrain_r'', kw_vmin = 0, kw_vmax = 2,
          kw_factor = Some (1 / (step ^ 2 * (snd (period a) - fst (period a)))),
          kw_name = ''count'', kw_norm = None\<rparr>]"
    and m1: "meshes (axes_list (nb_fig s) ! 1) =
       [mesh_of (nb_g_c s) (grid_shape bins) (count_values (centers c) bins)
          (map (\<lambda>v. v = 0) (count_values (centers c) bins))
          \<lparr>kw_cmap = ''terrain_r'', kw_vmin = 0, kw_vmax = 2,
          kw_factor = Some (1 / (step ^ 2 * (snd (period a) - fst (period a)))),
          kw_name = ''count'', kw_norm = None\<rparr>]"
    and m2: "meshes (axes_list (nb_fig s) ! 2) =
       [mesh_of (nb_g_c s) (grid_shape bins) (data_of (nb_store s) 2) (mask_of (nb_store s) 3)
          \<lparr>kw_cmap = ''terrain_r'', kw_vmin = 0, kw_vmax = 2,
          kw_factor = Some (1 / (step ^ 2 * (snd (period a) - fst (period a)))),
          kw_name = ''count'', kw_norm = None\<rparr>]"
    by blast
  note m1 = m1 [unfolded One_nat_def]
  have l2: "length (data_of (nb_store s) 2) = ncells (grid_shape bins)"
    by (simp add: s2 put_where_def count_values_length)
  have v2: "\<forall>i < ncells (grid_shape bins).
      data_of (nb_store s) 2 ! i = count_values (centers c) bins ! i + count_values (centers a) bins ! i"
    by (simp add: s2 nth_sum_counts [where n = "ncells (grid_shape bins)"] count_values_length)
  have d: "snd (period c) - fst (period c) \<noteq> snd (period a) - fst (period a) \<longrightarrow>
     (1 / (step ^ 2 * (snd (period a) - fst (period a)))) \<noteq> 1 / (step ^ 2 * (snd (period c) - fst (period c)))"
    using per by (auto simp: step_def field_simps)
  show ?thesis
    using n d by (simp add: ix m0 m1 m2 mesh_of_def l2 v2)
qed

theorem factor_from_anticyclonic_period_witness:
  "files ex_env (get_path ex_env ''eddies_med_adt_allsat_dt2018/Anticyclonic.zarr'') = Some ex_a \<and>
   files ex_env (get_path ex_env ''eddies_med_adt_allsat_dt2018/Cyclonic.zarr'') = Some ex_c \<and>
   fst (period ex_a) \<noteq> snd (period ex_a) \<and>
   snd (period ex_c) - fst (period ex_c) \<noteq> snd (period ex_a) - fst (period ex_a) \<and>
   1 / (step ^ 2 * (snd (period ex_c) - fst (period ex_c))) = 16 / 5 \<and>
   (\<exists>s m_c m_all. notebook ex_env = Inr s \<and>
     meshes (axes_list (nb_fig s) ! nb_ax_c s) = [m_c] \<and>
     meshes (axes_list (nb_fig s) ! nb_ax_all s) = [m_all] \<and>
     mesh_factor m_c = 32 / 5 \<and> mesh_factor m_all = 32 / 5)"
proof -
  have f: "1 / (step ^ 2 * (snd (period ex_a) - fst (period ex_a))) = 32 / 5"
    by (simp add: step_def ex_a_def power2_eq_square)
  have g: "snd (period ex_c) - fst (period ex_c) \<noteq> snd (period ex_a) - fst (period ex_a) \<and>
     1 / (step ^ 2 * (snd (period ex_c) - fst (period ex_c))) = 16 / 5"
    by (simp add: step_def ex_a_def ex_c_def power2_eq_square)
  from factor_from_anticyclonic_period [OF ex_env_files] show ?thesis
    unfolding f using ex_env_files g by blast
qed

end
